theory Spec2Isabelle
  imports Complex_Main "HOL-Library.Sublist"
begin

section \<open>The execution relay (devratebe/server.js)\<close>

subsection \<open>Data\<close>

text \<open>
  JSON values, as \<open>express.json()\<close> and \<open>Response.json()\<close> produce them and as
  \<open>res.json\<close> takes them. An object keeps its members as an association list.
\<close>

datatype json =
    JNull
  | JBool bool
  | JNum real
  | JStr string
  | JArr "json list"
  | JObj "(string \<times> json) list"

text \<open>
  \<open>process.env\<close>: the two variables the relay reads. A variable that is not set reads as
  \<open>undefined\<close>, here \<open>None\<close>.
\<close>

record env =
  JDOODLE_CLIENT_ID :: "string option"
  JDOODLE_CLIENT_SECRET :: "string option"

definition CLIENT_ID :: "env \<Rightarrow> string option" where
  "CLIENT_ID e = JDOODLE_CLIENT_ID e"

definition CLIENT_SECRET :: "env \<Rightarrow> string option" where
  "CLIENT_SECRET e = JDOODLE_CLIENT_SECRET e"

definition JD_API_URL :: string where
  "JD_API_URL = ''https://api.jdoodle.com/v1/execute''"

text \<open>
  The body of a request to \<open>POST /api/execute\<close>, after \<open>express.json()\<close>. The endpoint
  takes \<open>script\<close> and \<open>language\<close> as strings; a member that the body does not have
  destructures to \<open>undefined\<close>, here \<open>None\<close>.
\<close>

record req_body =
  req_script :: "string option"
  req_language :: "string option"

text \<open>The object \<open>executionPayload\<close> that is serialised and posted to the provider.\<close>

record payload =
  clientId :: "string option"
  clientSecret :: "string option"
  script :: string
  language :: string
  versionIndex :: string
  stdin :: string

text \<open>One call of \<open>fetch\<close>: the address and the payload that is posted to it.\<close>

record upstream_call =
  url :: string
  body :: payload

text \<open>
  What the provider's answer looks like to the handler. \<open>fetch\<close> either rejects (a
  network error, carried as its message) or resolves to a response with a status and a
  body; reading the body may fail in turn (\<open>Inl\<close> with the cause).
\<close>

record upstream_response =
  status :: nat
  text_body :: "string + string"

datatype fetch_result =
    Rejected string
  | Resolved upstream_response

text \<open>What the handler sends back: the HTTP status and the value given to \<open>res.json\<close>.\<close>

record http_response =
  res_status :: nat
  res_json :: json

text \<open>Lines written to the server's console.\<close>

datatype console_line =
    ConsoleLog string
  | ConsoleLogJson string json
  | ConsoleError string string

text \<open>
  The result of running the handler once: the response, the calls made to the provider
  and the console output, each in the order of the source.
\<close>

record handled =
  response :: http_response
  upstream_calls :: "upstream_call list"
  console :: "console_line list"

subsection \<open>Helpers of the platform\<close>

text \<open>\<open>!v\<close> for a value that is \<open>undefined\<close> or a string: true for \<open>undefined\<close> and \<open>""\<close>.\<close>

definition falsy :: "string option \<Rightarrow> bool" where
  "falsy v = (case v of None \<Rightarrow> True | Some s \<Rightarrow> s = [])"

text \<open>\<open>Response.ok\<close>: the status is in the range 200 to 299.\<close>

definition ok :: "upstream_response \<Rightarrow> bool" where
  "ok r = (200 \<le> status r \<and> status r \<le> 299)"

text \<open>The decimal digits of a number, as a template literal prints an integer.\<close>

definition digit :: "nat \<Rightarrow> char" where
  "digit d = ''0123456789'' ! d"

fun decimal :: "nat \<Rightarrow> string" where
  "decimal n = (if n < 10 then [digit n] else decimal (n div 10) @ [digit (n mod 10)])"

declare decimal.simps [simp del]

text \<open>
  \<open>Response.json()\<close> reads the body and parses it; the parser \<open>parse\<close> is a parameter
  (\<open>Inl\<close> is the message of the \<open>SyntaxError\<close>).
\<close>

definition response_json :: "(string \<Rightarrow> string + json) \<Rightarrow> upstream_response \<Rightarrow> string + json" where
  "response_json parse r = (case text_body r of Inl cause \<Rightarrow> Inl cause | Inr t \<Rightarrow> parse t)"

subsection \<open>The handler of POST /api/execute\<close>

definition executionPayload :: "env \<Rightarrow> string \<Rightarrow> string \<Rightarrow> payload" where
  "executionPayload e scr lang =
     \<lparr>clientId = CLIENT_ID e, clientSecret = CLIENT_SECRET e,
      script = scr, language = lang, versionIndex = ''0'', stdin = ''''\<rparr>"

definition validation_failure :: http_response where
  "validation_failure =
     \<lparr>res_status = 400,
      res_json = JObj [(''error'', JStr ''Missing code or language in request.'')]\<rparr>"

definition upstream_failure :: "nat \<Rightarrow> string \<Rightarrow> http_response" where
  "upstream_failure st errorText =
     \<lparr>res_status = 502,
      res_json = JObj
        [(''error'', JStr ''Compiler Service Authentication or API Error.''),
         (''detail'', JStr (''JDoodle returned status '' @ decimal st)),
         (''jdoodleError'', JStr errorText)]\<rparr>"

definition internal_failure :: http_response where
  "internal_failure =
     \<lparr>res_status = 500,
      res_json = JObj [(''error'', JStr ''Internal server error while executing code.'')]\<rparr>"

definition catch_block :: "string \<Rightarrow> http_response \<times> console_line list" where
  "catch_block cause = (internal_failure, [ConsoleError ''Error calling JDoodle API:'' cause])"

text \<open>
  The part of the handler inside \<open>try\<close>, after \<open>fetch\<close> has settled: the response and
  the console lines it produces.
\<close>

definition after_fetch ::
  "(string \<Rightarrow> string + json) \<Rightarrow> fetch_result \<Rightarrow> http_response \<times> console_line list" where
  "after_fetch parse fr =
     (case fr of
        Rejected cause \<Rightarrow> catch_block cause
      | Resolved r \<Rightarrow>
          (let l1 = ConsoleLog (''[JDoodle Check] API Response Status: '' @ decimal (status r)) in
           if \<not> ok r then
             (case text_body r of
                Inl cause \<Rightarrow> (fst (catch_block cause), l1 # snd (catch_block cause))
              | Inr errorText \<Rightarrow>
                  (upstream_failure (status r) errorText,
                   [l1, ConsoleError ''[JDoodle Check] Full Error Body:'' errorText]))
           else
             (case response_json parse r of
                Inl cause \<Rightarrow> (fst (catch_block cause), l1 # snd (catch_block cause))
              | Inr result \<Rightarrow>
                  (\<lparr>res_status = 200, res_json = result\<rparr>,
                   [l1, ConsoleLogJson ''[JDoodle Check] Parsed JSON Result:'' result]))))"

text \<open>
  The handler from its guard on, for a body that line 27 could destructure. \<open>fetch\<close>
  stands for the provider and the network between: it maps the call to what the
  handler gets back. Past the check both members are strings, so the last branch is
  never taken.
\<close>

definition execute ::
  "env \<Rightarrow> (upstream_call \<Rightarrow> fetch_result) \<Rightarrow> (string \<Rightarrow> string + json) \<Rightarrow> req_body \<Rightarrow> handled" where
  "execute e fetch parse req =
     (if falsy (req_script req) \<or> falsy (req_language req) then
        \<lparr>response = validation_failure, upstream_calls = [], console = []\<rparr>
      else
        (case (req_script req, req_language req) of
           (Some scr, Some lang) \<Rightarrow>
             (let call = \<lparr>url = JD_API_URL, body = executionPayload e scr lang\<rparr>;
                  l0 = ConsoleLog (''Executing '' @ lang @ '' script...'');
                  (res, ls) = after_fetch parse (fetch call)
              in \<lparr>response = res, upstream_calls = [call], console = [l0, l0] @ ls\<rparr>)
         | _ \<Rightarrow> \<lparr>response = validation_failure, upstream_calls = [], console = []\<rparr>))"

text \<open>
  An exception that leaves the handler: it sends no response of its own, and what the
  client gets is the framework's answer to a failed handler.
\<close>

datatype uncaught = TypeError

text \<open>
  The whole handler. \<open>req.body\<close> is what \<open>express.json()\<close> left there: an object,
  or \<open>undefined\<close> (here \<open>None\<close>) when it parsed nothing, as for a request without a
  JSON body. The first statement, \<open>const { script, language } = req.body\<close>, stands
  before the guard and outside \<open>try\<close>; on \<open>undefined\<close> it throws.
\<close>

definition api_execute ::
  "env \<Rightarrow> (upstream_call \<Rightarrow> fetch_result) \<Rightarrow> (string \<Rightarrow> string + json) \<Rightarrow>
   req_body option \<Rightarrow> uncaught + handled" where
  "api_execute e fetch parse b =
     (case b of
        None \<Rightarrow> Inl TypeError
      | Some req \<Rightarrow> Inr (execute e fetch parse req))"

text \<open>The member \<open>k\<close> of a JSON object, \<open>None\<close> where there is none.\<close>

fun json_member :: "json \<Rightarrow> string \<Rightarrow> json option" where
  "json_member (JObj kvs) k = map_of kvs k"
| "json_member _ k = None"

section \<open>The offline output renderer (devratedraft/src/App.jsx, getSimulatedOutput)\<close>

subsection \<open>String operations of the platform\<close>

text \<open>
  A string is a list of code units; the model keeps the code units below 256. The
  white space of \<open>trim\<close> and of \<open>\s\<close> in that range: tab, line feed, vertical tab,
  form feed, carriage return, space and no-break space.
\<close>

definition isWhiteSpace :: "char \<Rightarrow> bool" where
  "isWhiteSpace c =
     (c \<in> set [CHR 0x09, CHR 0x0A, CHR 0x0B, CHR 0x0C, CHR 0x0D, CHR 0x20, CHR 0xA0])"

text \<open>
  \<open>s.split(c)\<close> for a separator of one character: the pieces between the separators,
  at least one. The branch for an empty list of pieces is never taken.
\<close>

fun split_str :: "char \<Rightarrow> string \<Rightarrow> string list" where
  "split_str c [] = [[]]"
| "split_str c (x # xs) =
     (if x = c then [] # split_str c xs
      else (case split_str c xs of [] \<Rightarrow> [[x]] | l # ls \<Rightarrow> (x # l) # ls))"

definition trim :: "string \<Rightarrow> string" where
  "trim s = rev (dropWhile isWhiteSpace (rev (dropWhile isWhiteSpace s)))"

definition startsWith :: "string \<Rightarrow> string \<Rightarrow> bool" where
  "startsWith s p = (take (length p) s = p)"

definition endsWith :: "string \<Rightarrow> string \<Rightarrow> bool" where
  "endsWith s p = (length p \<le> length s \<and> drop (length s - length p) s = p)"

text \<open>
  \<open>s.substring(a, b)\<close>: both indices are clamped to the string and swapped when the
  first is the larger.
\<close>

definition substring :: "string \<Rightarrow> int \<Rightarrow> int \<Rightarrow> string" where
  "substring s a b =
     (let n = int (length s);
          a' = max 0 (min a n);
          b' = max 0 (min b n);
          lo = min a' b';
          hi = max a' b'
      in take (nat (hi - lo)) (drop (nat lo) s))"

text \<open>\<open>xs.join(sep)\<close>.\<close>

fun join :: "string \<Rightarrow> string list \<Rightarrow> string" where
  "join sep [] = []"
| "join sep [x] = x"
| "join sep (x # y # ys) = x @ sep @ join sep (y # ys)"

subsection \<open>The pattern of the renderer\<close>

text \<open>
  \<open>line.match(/print\s*\(([^)]+)\)/)\<close>, giving the text of group 1 of the leftmost match
  or \<open>None\<close> for \<open>null\<close>. At one start position the match is forced: the word
  \<open>print\<close>, all the white space that follows (the next character has to be the
  parenthesis, which is no white space), the parenthesis, then every character up to
  the next closing parenthesis (the group stops there or nowhere), at least one, and
  that closing parenthesis. So backtracking never finds a match where the greedy run
  fails, and the search moves on to the next start position.
\<close>

definition match_here :: "string \<Rightarrow> string option" where
  "match_here s =
     (if startsWith s ''print'' then
        (case dropWhile isWhiteSpace (drop 5 s) of
           [] \<Rightarrow> None
         | c # r \<Rightarrow>
             if c = CHR ''('' then
               (let g = takeWhile (\<lambda>x. x \<noteq> CHR '')'') r in
                if g \<noteq> [] \<and> dropWhile (\<lambda>x. x \<noteq> CHR '')'') r \<noteq> [] then Some g else None)
             else None)
      else None)"

fun match_print :: "string \<Rightarrow> string option" where
  "match_print [] = match_here []"
| "match_print (c # cs) =
     (case match_here (c # cs) of Some g \<Rightarrow> Some g | None \<Rightarrow> match_print cs)"

subsection \<open>getSimulatedOutput\<close>

text \<open>The predicate of \<open>filter\<close>: the lines the renderer takes for print statements.\<close>

definition is_print_statement :: "string \<Rightarrow> bool" where
  "is_print_statement line =
     (startsWith (trim line) ''print('' \<and> \<not> startsWith (trim line) ''#'')"

definition placeholder :: string where
  "placeholder = ''...execution result...''"

text \<open>The function of \<open>map\<close>: what the renderer shows for one print statement.\<close>

definition print_content :: "string \<Rightarrow> string" where
  "print_content line =
     (case match_print line of
        Some g \<Rightarrow>
          (let content = trim g in
           if (startsWith content [CHR 0x22] \<and> endsWith content [CHR 0x22])
              \<or> (startsWith content [CHR 0x27] \<and> endsWith content [CHR 0x27])
           then substring content 1 (int (length content) - 1)
           else content)
      | None \<Rightarrow> placeholder)"

definition output_header :: string where
  "output_header = ''--- Execution Output (Parsed Print Statements) ---''"

definition no_print_message :: string where
  "no_print_message =
     ''--- Execution Successful (Simulated) ---\<newline>'' @
     ''No explicit print statements found in code.\<newline>'' @
     ''This area will eventually display output from your cloud-based compiler.\<newline>'' @
     ''---------------------------------------\<newline>'' @
     ''Next Steps: Integrate AI Code Detector here.''"

definition getSimulatedOutput :: "string \<Rightarrow> string" where
  "getSimulatedOutput inputCode =
     (let lines = split_str CHR ''\<newline>'' inputCode;
          printStatements = map print_content (filter is_print_statement lines)
      in if length printStatements > 0
         then join ''\<newline>'' (output_header # printStatements)
         else no_print_message)"

section \<open>The page (devratedraft/src/App.jsx, component App)\<close>

subsection \<open>State\<close>

text \<open>
  The callbacks the component hands to \<open>setInterval\<close> and \<open>setTimeout\<close>: the check
  for the libraries, the one that sets \<open>isReady\<close>, and the one of \<open>handleRunCode\<close>
  with the \<open>code\<close> of the render it was created in.
\<close>

datatype task =
    PollLibraries
  | SettleEditor
  | RenderOutput string

text \<open>An entry of the browser's timer table.\<close>

record timer =
  timer_id :: nat
  repeats :: bool
  delay :: nat
  callback :: task

text \<open>The calls a terminal handle has received.\<close>

datatype term_call =
    Clear
  | Write string

datatype editor_state =
    NoEditor
  | Live
  | Disposed

text \<open>
  What the component finds on \<open>window\<close> when a callback or an effect runs: whether each
  global is there, and whether the constructors return or throw.
\<close>

record globals =
  monaco :: bool
  Terminal :: bool
  FitAddon :: bool
  create_throws :: bool
  new_Terminal_throws :: bool
  open_throws :: bool

text \<open>
  The component with its surroundings: the three state variables; whether it is mounted;
  the variable \<open>checkInterval\<close> of the first effect; the browser's timer table and the
  next identifier it hands out; the editor; \<open>terminalInstanceRef.current\<close> with the calls
  the handle has received, and whether it was disposed of; the listener for \<open>resize\<close>;
  which cleanup the last run of the second and of the third effect returned; and the
  requests sent to the relay.
\<close>

record client =
  code :: string
  isReady :: bool
  isLoading :: bool
  mounted :: bool
  checkInterval :: "nat option"
  timers :: "timer list"
  next_timer :: nat
  editor :: editor_state
  terminalInstance :: "term_call list option"
  terminal_disposed :: bool
  resize_listener :: bool
  editor_cleanup :: bool
  terminal_cleanup :: bool
  sent :: "req_body list"

subsection \<open>Timers\<close>

definition set_timer :: "bool \<Rightarrow> task \<Rightarrow> nat \<Rightarrow> client \<Rightarrow> client" where
  "set_timer rep cb ms s =
     s\<lparr>timers := timers s @ [\<lparr>timer_id = next_timer s, repeats = rep, delay = ms, callback = cb\<rparr>],
       next_timer := Suc (next_timer s)\<rparr>"

definition setInterval :: "task \<Rightarrow> nat \<Rightarrow> client \<Rightarrow> client" where
  "setInterval cb ms s = set_timer True cb ms s"

definition setTimeout :: "task \<Rightarrow> nat \<Rightarrow> client \<Rightarrow> client" where
  "setTimeout cb ms s = set_timer False cb ms s"

text \<open>\<open>clearInterval(id)\<close>; with \<open>undefined\<close> it does nothing.\<close>

definition clearInterval :: "nat option \<Rightarrow> client \<Rightarrow> client" where
  "clearInterval h s =
     (case h of
        None \<Rightarrow> s
      | Some i \<Rightarrow> s\<lparr>timers := filter (\<lambda>t. timer_id t \<noteq> i) (timers s)\<rparr>)"

subsection \<open>writeToTerminal\<close>

definition ready_banner :: "term_call list" where
  "ready_banner =
     [Write (CHR 0x1B # ''[32;1mNEUDev Compiler Simulation Ready...'' @ CHR 0x1B # ''[0m'' @ [CHR 0x0D, CHR 0x0A]),
      Write (''----------------------------------------'' @ [CHR 0x0D, CHR 0x0A, CHR 0x0A])]"

definition writeToTerminal :: "string \<Rightarrow> bool \<Rightarrow> client \<Rightarrow> client" where
  "writeToTerminal txt clear s =
     (case terminalInstance s of
        None \<Rightarrow> s
      | Some calls \<Rightarrow>
          s\<lparr>terminalInstance :=
              Some (calls @ (if clear then Clear # ready_banner else [])
                      @ map (\<lambda>line. Write (line @ [CHR 0x0D, CHR 0x0A])) (split_str CHR ''\<newline>'' txt))\<rparr>)"

subsection \<open>The effects\<close>

text \<open>
  The refs to the two containers are set while the page proper is rendered, that is
  when \<open>isLoading\<close> is false.
\<close>

definition editorRef :: "client \<Rightarrow> bool" where
  "editorRef s = (\<not> isLoading s)"

definition terminalRef :: "client \<Rightarrow> bool" where
  "terminalRef s = (\<not> isLoading s)"

text \<open>The body of the effect that creates the editor.\<close>

definition init_editor :: "globals \<Rightarrow> client \<Rightarrow> client" where
  "init_editor w s =
     (if editorRef s \<and> \<not> isReady s \<and> \<not> isLoading s then
        if \<not> monaco w then s\<lparr>editor_cleanup := False\<rparr>
        else if create_throws w then s\<lparr>editor_cleanup := False\<rparr>
        else setTimeout SettleEditor 500 (s\<lparr>editor := Live, editor_cleanup := True\<rparr>)
      else s\<lparr>editor_cleanup := False\<rparr>)"

text \<open>The cleanup of that effect, if its last run returned one: \<open>editor.dispose()\<close>.\<close>

definition cleanup_editor :: "client \<Rightarrow> client" where
  "cleanup_editor s =
     (if editor_cleanup s then s\<lparr>editor := Disposed, editor_cleanup := False\<rparr> else s)"

text \<open>\<open>initTerminal\<close>, and with it the body of the effect that calls it.\<close>

definition initTerminal :: "globals \<Rightarrow> client \<Rightarrow> client" where
  "initTerminal w s =
     (if terminalRef s \<and> terminalInstance s = None \<and> \<not> isLoading s then
        if \<not> Terminal w \<or> \<not> FitAddon w then s\<lparr>terminal_cleanup := False\<rparr>
        else if new_Terminal_throws w then s\<lparr>terminal_cleanup := False\<rparr>
        else if open_throws w then s\<lparr>terminalInstance := Some [], terminal_cleanup := False\<rparr>
        else
          (writeToTerminal ''NEUDev Compiler Simulation Initializing...'' False
             (s\<lparr>terminalInstance := Some []\<rparr>))
            \<lparr>resize_listener := True, terminal_cleanup := True\<rparr>
      else s\<lparr>terminal_cleanup := False\<rparr>)"

definition init_terminal_effect :: "globals \<Rightarrow> client \<Rightarrow> client" where
  "init_terminal_effect w s =
     (if \<not> isLoading s then initTerminal w s else s\<lparr>terminal_cleanup := False\<rparr>)"

definition cleanup_terminal :: "client \<Rightarrow> client" where
  "cleanup_terminal s =
     (if terminal_cleanup s
      then s\<lparr>resize_listener := False, terminal_disposed := True, terminal_cleanup := False\<rparr>
      else s)"

subsection \<open>State updates\<close>

text \<open>
  \<open>setIsLoading(false)\<close>: nothing on a component that is gone or where the value is
  unchanged; otherwise the page is rendered again and the two effects that depend on
  \<open>isLoading\<close> run, cleanups first.
\<close>

definition setIsLoading_false :: "globals \<Rightarrow> client \<Rightarrow> client" where
  "setIsLoading_false w s =
     (if \<not> mounted s \<or> \<not> isLoading s then s
      else init_terminal_effect w
             (init_editor w (cleanup_terminal (cleanup_editor (s\<lparr>isLoading := False\<rparr>)))))"

text \<open>\<open>setIsReady(true)\<close>: only the effect of the editor depends on \<open>isReady\<close>.\<close>

definition setIsReady_true :: "globals \<Rightarrow> client \<Rightarrow> client" where
  "setIsReady_true w s =
     (if \<not> mounted s \<or> isReady s then s
      else init_editor w (cleanup_editor (s\<lparr>isReady := True\<rparr>)))"

text \<open>\<open>setCode(v)\<close>: no effect depends on \<open>code\<close>.\<close>

definition setCode :: "string \<Rightarrow> client \<Rightarrow> client" where
  "setCode v s = (if \<not> mounted s then s else s\<lparr>code := v\<rparr>)"

subsection \<open>Mounting, the poll and the run\<close>

definition initial_code :: string where
  \<open>initial_code =
     ''print("Hello, NEUDev!")\<newline>\<newline># Your code analysis model will integrate here later!\<newline>''\<close>

text \<open>
  The component after its first render and the first run of its effects. Only the
  first effect does something then: it starts the poll when \<open>window\<close> is defined.
\<close>

definition mount :: "bool \<Rightarrow> client" where
  "mount window_defined =
     (let s = \<lparr>code = initial_code, isReady = False, isLoading = True, mounted = True,
               checkInterval = None, timers = [], next_timer = 0, editor = NoEditor,
               terminalInstance = None, terminal_disposed = False, resize_listener = False,
               editor_cleanup = False, terminal_cleanup = False, sent = []\<rparr>
      in if window_defined
         then (setInterval PollLibraries 200 s)\<lparr>checkInterval := Some (next_timer s)\<rparr>
         else s)"

text \<open>The callback of the poll.\<close>

definition poll_tick :: "globals \<Rightarrow> client \<Rightarrow> client" where
  "poll_tick w s =
     (if monaco w \<and> Terminal w \<and> FitAddon w
      then setIsLoading_false w (clearInterval (checkInterval s) s)
      else s)"

definition handleRunCode :: "client \<Rightarrow> client" where
  "handleRunCode s =
     (if \<not> isReady s then s
      else setTimeout (RenderOutput (code s)) 1000
             (writeToTerminal ''Compiling and running code...\<newline>\<newline>'' True s))"

text \<open>The callback of the timeout that \<open>handleRunCode\<close> sets.\<close>

definition render_output :: "string \<Rightarrow> client \<Rightarrow> client" where
  "render_output c s = writeToTerminal (getSimulatedOutput c) True s"

text \<open>The attribute \<open>disabled\<close> of the run button.\<close>

definition run_disabled :: "client \<Rightarrow> bool" where
  "run_disabled s = (\<not> isReady s)"

subsection \<open>Events\<close>

text \<open>
  What can happen to the mounted page: a timer of the table fires, the user clicks the
  run button, the editor reports a change of its content, the component is unmounted.
  Time is not measured: a timer that is in the table may fire at any moment, one that
  is not in the table never fires.
\<close>

datatype event =
    Fire nat globals
  | Click
  | Edit string
  | Unmount

definition find_timer :: "nat \<Rightarrow> client \<Rightarrow> timer option" where
  "find_timer i s = find (\<lambda>t. timer_id t = i) (timers s)"

definition run_task :: "task \<Rightarrow> globals \<Rightarrow> client \<Rightarrow> client" where
  "run_task cb w s =
     (case cb of
        PollLibraries \<Rightarrow> poll_tick w s
      | SettleEditor \<Rightarrow> setIsReady_true w s
      | RenderOutput c \<Rightarrow> render_output c s)"

definition fire :: "nat \<Rightarrow> globals \<Rightarrow> client \<Rightarrow> client" where
  "fire i w s =
     (case find_timer i s of
        None \<Rightarrow> s
      | Some t \<Rightarrow>
          run_task (callback t) w
            (if repeats t then s else s\<lparr>timers := filter (\<lambda>t. timer_id t \<noteq> i) (timers s)\<rparr>))"

text \<open>Unmounting runs the cleanup of each effect.\<close>

definition unmount :: "client \<Rightarrow> client" where
  "unmount s =
     (if \<not> mounted s then s
      else (cleanup_terminal (cleanup_editor (clearInterval (checkInterval s) s)))\<lparr>mounted := False\<rparr>)"

fun step :: "event \<Rightarrow> client \<Rightarrow> client" where
  "step (Fire i w) s = fire i w s"
| "step Click s = (if mounted s \<and> \<not> isLoading s then handleRunCode s else s)"
| "step (Edit v) s = (if editor s = Live then setCode v s else s)"
| "step Unmount s = unmount s"

definition run :: "event list \<Rightarrow> client \<Rightarrow> client" where
  "run evs s = fold step evs s"

text \<open>The poll is in the timer table.\<close>

definition poll_pending :: "client \<Rightarrow> bool" where
  "poll_pending s = (PollLibraries \<in> callback ` set (timers s))"

text \<open>The timeout that grants \<open>isReady\<close> is in the timer table.\<close>

definition settle_pending :: "client \<Rightarrow> bool" where
  "settle_pending s = (SettleEditor \<in> callback ` set (timers s))"

definition all_available :: "globals \<Rightarrow> bool" where
  "all_available w = (monaco w \<and> Terminal w \<and> FitAddon w)"

subsection \<open>What is written, and what holds throughout\<close>

text \<open>The calls that \<open>writeToTerminal(txt, clear)\<close> makes on the terminal handle.\<close>

definition written :: "string \<Rightarrow> bool \<Rightarrow> term_call list" where
  "written txt clear =
     (if clear then Clear # ready_banner else [])
       @ map (\<lambda>line. Write (line @ [CHR 0x0D, CHR 0x0A])) (split_str CHR ''\<newline>'' txt)"

text \<open>
  What holds in every state the page can reach: timers have identifiers below the next
  one; a poll in the table is the one that \<open>checkInterval\<close> names; a page that is
  unmounted has no poll; the timeout for \<open>isReady\<close> and the flag itself presuppose
  an editor that was created after loading had ended; nothing was sent to the relay.
\<close>

definition page_inv :: "client \<Rightarrow> bool" where
  "page_inv s =
     ((\<forall>t \<in> set (timers s). timer_id t < next_timer s) \<and>
      (\<forall>t \<in> set (timers s). callback t = PollLibraries \<longrightarrow> checkInterval s = Some (timer_id t)) \<and>
      (\<not> mounted s \<longrightarrow> \<not> poll_pending s) \<and>
      (settle_pending s \<or> isReady s \<longrightarrow> editor s \<noteq> NoEditor \<and> \<not> isLoading s) \<and>
      sent s = [])"

text \<open>The event is the firing of the timer \<open>i\<close>.\<close>

definition fires :: "nat \<Rightarrow> event \<Rightarrow> bool" where
  "fires i ev = (case ev of Fire j w \<Rightarrow> j = i | _ \<Rightarrow> False)"

text \<open>
  What holds of the timer table in every state the page can reach: identifiers are
  below the next one, and so is the one that \<open>checkInterval\<close> names; a timer with
  that identifier is the poll; only the poll repeats.
\<close>

definition timer_inv :: "client \<Rightarrow> bool" where
  "timer_inv s =
     ((\<forall>t \<in> set (timers s). timer_id t < next_timer s) \<and>
      (\<forall>j. checkInterval s = Some j \<longrightarrow> j < next_timer s) \<and>
      (\<forall>t \<in> set (timers s). checkInterval s = Some (timer_id t) \<longrightarrow> callback t = PollLibraries) \<and>
      (\<forall>t \<in> set (timers s). repeats t \<longrightarrow> callback t = PollLibraries))"

section \<open>Sample inputs\<close>

definition sample_env :: env where
  "sample_env = \<lparr>JDOODLE_CLIENT_ID = Some ''id-123'', JDOODLE_CLIENT_SECRET = Some ''s3cret''\<rparr>"

definition other_env :: env where
  "other_env = \<lparr>JDOODLE_CLIENT_ID = Some ''id-456'', JDOODLE_CLIENT_SECRET = None\<rparr>"

text \<open>A parser that knows one document and rejects every other text.\<close>

definition sample_parse :: "string \<Rightarrow> string + json" where
  \<open>sample_parse t =
     (if t = ''{"output":"42"}'' then Inr (JObj [(''output'', JStr ''42'')])
      else Inl ''SyntaxError: Unexpected token'')\<close>

definition sample_request :: req_body where
  "sample_request = \<lparr>req_script = Some ''print(42)'', req_language = Some ''python3''\<rparr>"

definition other_request :: req_body where
  "other_request = \<lparr>req_script = Some ''int main() { return 0; }'', req_language = Some ''cpp''\<rparr>"

definition answer_42 :: upstream_response where
  \<open>answer_42 = \<lparr>status = 200, text_body = Inr ''{"output":"42"}''\<rparr>\<close>

text \<open>A provider that turns every call down with status 401.\<close>

definition unauthorized_provider :: "upstream_call \<Rightarrow> fetch_result" where
  "unauthorized_provider c = Resolved \<lparr>status = 401, text_body = Inr ''Unauthorized Request''\<rparr>"

text \<open>A provider that names the client identifier it was sent in its error body.\<close>

definition echoing_provider :: "upstream_call \<Rightarrow> fetch_result" where
  "echoing_provider c =
     Resolved \<lparr>status = 403,
               text_body = Inr (''Invalid credentials for client '' @
                                  (case clientId (body c) of Some i \<Rightarrow> i | None \<Rightarrow> []))\<rparr>"

text \<open>The buffer of two print statements, the second with an argument that is no literal.\<close>

definition example_buffer :: string where
  \<open>example_buffer = ''print("hi")\<newline>print(2+2)''\<close>

text \<open>A window on which the three libraries are there and work, and one on which none is.\<close>

definition all_loaded :: globals where
  "all_loaded = \<lparr>monaco = True, Terminal = True, FitAddon = True, create_throws = False,
                  new_Terminal_throws = False, open_throws = False\<rparr>"

definition none_loaded :: globals where
  "none_loaded = \<lparr>monaco = False, Terminal = False, FitAddon = False, create_throws = False,
                  new_Terminal_throws = False, open_throws = False\<rparr>"

text \<open>
  The page after a tick of the poll that finds nothing, one that finds the libraries,
  and the timeout that sets \<open>isReady\<close>.
\<close>

definition interactive_page :: client where
  "interactive_page = run [Fire 0 none_loaded, Fire 0 all_loaded, Fire 1 all_loaded] (mount True)"


text \<open>The interactive page after one click on the run button.\<close>

definition clicked_page :: client where
  "clicked_page =
     run [Fire 0 none_loaded, Fire 0 all_loaded, Fire 1 all_loaded, Click] (mount True)"

text \<open>A window on which the libraries are there but \<open>new Terminal\<close> throws.\<close>

definition terminal_fails :: globals where
  "terminal_fails = \<lparr>monaco = True, Terminal = True, FitAddon = True, create_throws = False,
                     new_Terminal_throws = True, open_throws = False\<rparr>"

section \<open>Properties of the relay\<close>

subsection \<open>The branches of the handler\<close>

lemma after_fetch_rejected: "fst (after_fetch parse (Rejected cause)) = internal_failure"
  by (simp add: after_fetch_def catch_block_def)

lemma after_fetch_not_ok:
  "\<not> ok r \<Longrightarrow> text_body r = Inr raw \<Longrightarrow>
   fst (after_fetch parse (Resolved r)) = upstream_failure (status r) raw"
  by (simp add: after_fetch_def)

lemma after_fetch_ok:
  "ok r \<Longrightarrow> response_json parse r = Inr j \<Longrightarrow>
   fst (after_fetch parse (Resolved r)) = \<lparr>res_status = 200, res_json = j\<rparr>"
  by (simp add: after_fetch_def)

lemma after_fetch_unparsed:
  "ok r \<Longrightarrow> response_json parse r = Inl cause \<Longrightarrow>
   fst (after_fetch parse (Resolved r)) = internal_failure"
  by (simp add: after_fetch_def catch_block_def)

lemma after_fetch_unread:
  "text_body r = Inl cause \<Longrightarrow> fst (after_fetch parse (Resolved r)) = internal_failure"
  by (simp add: after_fetch_def catch_block_def response_json_def Let_def)

lemma execute_invalid:
  "falsy (req_script req) \<or> falsy (req_language req) \<Longrightarrow>
   execute e fetch parse req =
     \<lparr>response = validation_failure, upstream_calls = [], console = []\<rparr>"
  by (simp add: execute_def)

text \<open>The handler calls the provider at most once, and only with a payload it built.\<close>

lemma execute_calls:
  "upstream_calls (execute e fetch parse req) = [] \<or>
   (\<exists>scr lang. scr \<noteq> [] \<and> lang \<noteq> [] \<and> req_script req = Some scr \<and> req_language req = Some lang \<and>
      upstream_calls (execute e fetch parse req) =
        [\<lparr>url = JD_API_URL, body = executionPayload e scr lang\<rparr>])"
  by (auto simp: execute_def falsy_def Let_def split: option.splits prod.splits)

text \<open>When it has called the provider, its response is the one computed from the answer.\<close>

lemma execute_called:
  "upstream_calls (execute e fetch parse req) = [c] \<Longrightarrow>
   response (execute e fetch parse req) = fst (after_fetch parse (fetch c))"
  by (auto simp: execute_def falsy_def Let_def split: option.splits prod.splits if_splits)

lemma sample_request_calls:
  "upstream_calls (execute sample_env fetch parse sample_request)
     = [\<lparr>url = JD_API_URL, body = executionPayload sample_env ''print(42)'' ''python3''\<rparr>]"
  by (simp add: execute_def sample_request_def falsy_def Let_def split: prod.splits)

lemma other_request_calls:
  "upstream_calls (execute sample_env fetch parse other_request)
     = [\<lparr>url = JD_API_URL,
         body = executionPayload sample_env ''int main() { return 0; }'' ''cpp''\<rparr>]"
  by (simp add: execute_def other_request_def falsy_def Let_def split: prod.splits)

subsection \<open>Validation\<close>

text \<open>
  C2. A request in which \<open>script\<close> or \<open>language\<close> is absent is to be answered
  with status 400 and a JSON body with a member \<open>error\<close>. For a request whose body
  was not parsed both are absent, and the handler answers nothing: it throws at its
  first statement, before the guard.
\<close>

theorem missing_body_throws:
  "api_execute e fetch parse None = Inl TypeError"
  by (simp add: api_execute_def)

text \<open>
  For a body that is an object the guard does what it is there for: with \<open>script\<close>
  or \<open>language\<close> absent or the empty string the answer is 400 with a member
  \<open>error\<close>, and the handler makes no call to the provider.
\<close>

theorem execute_validation_error:
  "req_script req = None \<or> req_script req = Some [] \<or>
   req_language req = None \<or> req_language req = Some [] \<Longrightarrow>
   res_status (response (execute e fetch parse req)) = 400 \<and>
   json_member (res_json (response (execute e fetch parse req))) ''error''
     = Some (JStr ''Missing code or language in request.'') \<and>
   upstream_calls (execute e fetch parse req) = []"
proof -
  assume "req_script req = None \<or> req_script req = Some [] \<or>
          req_language req = None \<or> req_language req = Some []"
  then have "falsy (req_script req) \<or> falsy (req_language req)"
    by (auto simp: falsy_def)
  then show ?thesis
    by (simp add: execute_invalid validation_failure_def)
qed

theorem execute_validation_error_witness:
  "res_status (response (execute sample_env (\<lambda>c. Rejected ''offline'') sample_parse
      \<lparr>req_script = Some '''', req_language = Some ''python''\<rparr>)) = 400 \<and>
   upstream_calls (execute sample_env (\<lambda>c. Rejected ''offline'') sample_parse
      \<lparr>req_script = Some '''', req_language = Some ''python''\<rparr>) = [] \<and>
   res_status (response (execute sample_env (\<lambda>c. Rejected ''offline'') sample_parse
      \<lparr>req_script = Some ''print(1)'', req_language = Some ''''\<rparr>)) = 400 \<and>
   upstream_calls (execute sample_env (\<lambda>c. Rejected ''offline'') sample_parse
      \<lparr>req_script = Some ''print(1)'', req_language = Some ''''\<rparr>) = []"
  using execute_validation_error [of "\<lparr>req_script = Some '''', req_language = Some ''python''\<rparr>"
          sample_env "\<lambda>c. Rejected ''offline''" sample_parse]
        execute_validation_error [of "\<lparr>req_script = Some ''print(1)'', req_language = Some ''''\<rparr>"
          sample_env "\<lambda>c. Rejected ''offline''" sample_parse]
  by simp

lemma api_execute_validation_error:
  "req_script req = None \<or> req_script req = Some [] \<or>
   req_language req = None \<or> req_language req = Some [] \<Longrightarrow>
   \<exists>h. api_execute e fetch parse (Some req) = Inr h \<and>
       res_status (response h) = 400 \<and> upstream_calls h = []"
  using execute_validation_error [of req e fetch parse] by (simp add: api_execute_def)

text \<open>Every call to the provider is made by the handler proper, on an object body.\<close>

lemma api_execute_handled:
  "api_execute e fetch parse b = Inr h \<Longrightarrow> \<exists>req. b = Some req \<and> h = execute e fetch parse req"
  by (cases b) (auto simp: api_execute_def)

subsection \<open>Failure of the provider\<close>

text \<open>
  C3, as stated: when the provider answers with a status outside 200 to 299, the member
  \<open>detail\<close> of the 502 body contains the provider's raw body. It does not: for the
  answer 401 with body \<open>Unauthorized Request\<close> the member \<open>detail\<close> is the text
  \<open>JDoodle returned status 401\<close>, in which the raw body does not occur.
\<close>

theorem upstream_error_detail_counterexample:
  "json_member (res_json (response (execute sample_env unauthorized_provider
       sample_parse sample_request))) ''detail''
     = Some (JStr ''JDoodle returned status 401'') \<and>
   json_member (res_json (response (execute sample_env unauthorized_provider
       sample_parse sample_request))) ''jdoodleError''
     = Some (JStr ''Unauthorized Request'') \<and>
   \<not> sublist ''Unauthorized Request'' ''JDoodle returned status 401''"
  apply (intro conjI)
    apply (simp add: execute_def sample_request_def falsy_def Let_def after_fetch_def ok_def
      upstream_failure_def digit_def decimal.simps unauthorized_provider_def split: prod.splits)
   apply (simp add: execute_def sample_request_def falsy_def Let_def after_fetch_def ok_def
      upstream_failure_def unauthorized_provider_def split: prod.splits)
  apply code_simp
  done

text \<open>
  C3, amended: when the provider answers with a status outside 200 to 299 and its body
  can be read, the relay answers 502 with a JSON body whose member \<open>error\<close> is a fixed
  message, whose member \<open>detail\<close> names the provider's status, and whose member
  \<open>jdoodleError\<close> is the provider's raw body.
\<close>

theorem upstream_error_502:
  "upstream_calls (execute e fetch parse req) = [c] \<Longrightarrow>
   fetch c = Resolved r \<Longrightarrow> \<not> ok r \<Longrightarrow> text_body r = Inr raw \<Longrightarrow>
   res_status (response (execute e fetch parse req)) = 502 \<and>
   json_member (res_json (response (execute e fetch parse req))) ''error''
     = Some (JStr ''Compiler Service Authentication or API Error.'') \<and>
   json_member (res_json (response (execute e fetch parse req))) ''detail''
     = Some (JStr (''JDoodle returned status '' @ decimal (status r))) \<and>
   json_member (res_json (response (execute e fetch parse req))) ''jdoodleError''
     = Some (JStr raw)"
  by (simp add: execute_called after_fetch_not_ok upstream_failure_def)

theorem upstream_error_502_witness:
  "upstream_calls (execute sample_env unauthorized_provider sample_parse sample_request)
     = [\<lparr>url = JD_API_URL, body = executionPayload sample_env ''print(42)'' ''python3''\<rparr>] \<and>
   \<not> ok \<lparr>status = 401, text_body = Inr ''Unauthorized Request''\<rparr> \<and>
   res_status (response (execute sample_env unauthorized_provider
       sample_parse sample_request)) = 502 \<and>
   json_member (res_json (response (execute sample_env unauthorized_provider
       sample_parse sample_request))) ''jdoodleError''
     = Some (JStr ''Unauthorized Request'')"
proof -
  let ?r = "\<lparr>status = 401, text_body = Inr ''Unauthorized Request''\<rparr>"
  have nok: "\<not> ok ?r" by (simp add: ok_def)
  have ans: "unauthorized_provider c = Resolved ?r" for c
    by (simp add: unauthorized_provider_def)
  from upstream_error_502 [OF sample_request_calls ans nok, of "''Unauthorized Request''"]
       sample_request_calls nok
  show ?thesis by simp
qed

subsection \<open>Success\<close>

text \<open>
  C4. When the provider answers with a status from 200 to 299 and a body that parses as
  JSON, the relay answers 200 with the parsed value as its body, unchanged.
\<close>

theorem upstream_success_passthrough:
  "upstream_calls (execute e fetch parse req) = [c] \<Longrightarrow>
   fetch c = Resolved r \<Longrightarrow> ok r \<Longrightarrow> text_body r = Inr t \<Longrightarrow> parse t = Inr j \<Longrightarrow>
   response (execute e fetch parse req) = \<lparr>res_status = 200, res_json = j\<rparr>"
  by (simp add: execute_called after_fetch_ok response_json_def)

theorem upstream_success_passthrough_witness:
  \<open>ok answer_42 \<and> text_body answer_42 = Inr ''{"output":"42"}'' \<and>
   sample_parse ''{"output":"42"}'' = Inr (JObj [(''output'', JStr ''42'')]) \<and>
   response (execute sample_env (\<lambda>c. Resolved answer_42) sample_parse sample_request)
     = \<lparr>res_status = 200, res_json = JObj [(''output'', JStr ''42'')]\<rparr>\<close>
proof -
  have a: "ok answer_42" by (simp add: ok_def answer_42_def)
  have b: \<open>text_body answer_42 = Inr ''{"output":"42"}''\<close> by (simp add: answer_42_def)
  have c: \<open>sample_parse ''{"output":"42"}'' = Inr (JObj [(''output'', JStr ''42'')])\<close>
    by (simp add: sample_parse_def)
  from upstream_success_passthrough [where fetch = "\<lambda>c. Resolved answer_42" and parse = sample_parse,
         OF sample_request_calls refl a b c] a b c
  show ?thesis by simp
qed

subsection \<open>Failure of the transport\<close>

text \<open>
  C5. When the call to the provider fails at the level of the transport (\<open>fetch\<close>
  rejects, or the answer has a success status and a body that does not parse as JSON,
  or the body cannot be read), the relay answers 500 with one fixed body, the same
  whatever the cause was: the cause is not part of it.
\<close>

theorem transport_failure_500:
  "upstream_calls (execute e fetch parse req) = [c] \<Longrightarrow>
   fetch c = Rejected cause
     \<or> (\<exists>r t. fetch c = Resolved r \<and> ok r \<and> text_body r = Inr t \<and> parse t = Inl cause)
     \<or> (\<exists>r. fetch c = Resolved r \<and> text_body r = Inl cause) \<Longrightarrow>
   response (execute e fetch parse req) =
     \<lparr>res_status = 500,
      res_json = JObj [(''error'', JStr ''Internal server error while executing code.'')]\<rparr>"
  by (auto simp: execute_called after_fetch_rejected after_fetch_unparsed after_fetch_unread
        response_json_def internal_failure_def)

theorem transport_failure_500_witness:
  "response (execute sample_env (\<lambda>c. Rejected ''connect ECONNREFUSED'') sample_parse sample_request)
     = \<lparr>res_status = 500,
        res_json = JObj [(''error'', JStr ''Internal server error while executing code.'')]\<rparr> \<and>
   ok \<lparr>status = 200, text_body = Inr ''<html>''\<rparr> \<and>
   sample_parse ''<html>'' = Inl ''SyntaxError: Unexpected token'' \<and>
   response (execute sample_env (\<lambda>c. Resolved \<lparr>status = 200, text_body = Inr ''<html>''\<rparr>)
       sample_parse sample_request)
     = \<lparr>res_status = 500,
        res_json = JObj [(''error'', JStr ''Internal server error while executing code.'')]\<rparr>"
proof -
  let ?r = "\<lparr>status = 200, text_body = Inr ''<html>''\<rparr>"
  have a: "ok ?r" by (simp add: ok_def)
  have b: "sample_parse ''<html>'' = Inl ''SyntaxError: Unexpected token''"
    by (simp add: sample_parse_def)
  have c: "\<exists>r t. (\<lambda>c. Resolved ?r) x = Resolved r \<and> ok r \<and> text_body r = Inr t
             \<and> sample_parse t = Inl ''SyntaxError: Unexpected token''" for x :: upstream_call
    using a b by auto
  from transport_failure_500 [OF sample_request_calls,
         of "\<lambda>c. Rejected ''connect ECONNREFUSED''" "''connect ECONNREFUSED''" sample_parse]
       transport_failure_500 [OF sample_request_calls,
         of "\<lambda>c. Resolved ?r" "''SyntaxError: Unexpected token''" sample_parse]
       a b c
  show ?thesis by simp
qed

subsection \<open>Credentials\<close>

text \<open>
  C6, as stated: credentials never appear in a response body. They do when the
  provider's answer contains them, since the relay copies the provider's body into its
  own response: a provider that names the client identifier in its error body gets that
  identifier into the member \<open>jdoodleError\<close> of the 502 body.
\<close>

theorem credentials_in_response_counterexample:
  "JDOODLE_CLIENT_ID sample_env = Some ''id-123'' \<and>
   json_member (res_json (response (execute sample_env echoing_provider sample_parse sample_request)))
       ''jdoodleError''
     = Some (JStr ''Invalid credentials for client id-123'') \<and>
   sublist ''id-123'' ''Invalid credentials for client id-123''"
  apply (intro conjI)
    apply (simp add: sample_env_def)
   apply (simp add: execute_def sample_request_def sample_env_def falsy_def Let_def after_fetch_def
      ok_def upstream_failure_def echoing_provider_def executionPayload_def CLIENT_ID_def
      split: prod.splits)
  apply code_simp
  done

text \<open>
  C6, amended: in every payload sent to the provider, \<open>clientId\<close> and \<open>clientSecret\<close>
  are the two environment variables, \<open>versionIndex\<close> is \<open>"0"\<close> and \<open>stdin\<close> is empty,
  so they are the same for any two requests, whatever their script and language; and
  the relay itself writes no credential into a response: two relays with different
  credentials whose providers give the same answers give the same response, which is a
  fixed message or built from the provider's status and body alone.
\<close>

theorem payload_credentials_fixed:
  "(c1 \<in> set (upstream_calls (execute e f1 p1 req1)) \<longrightarrow>
      clientId (body c1) = JDOODLE_CLIENT_ID e \<and>
      clientSecret (body c1) = JDOODLE_CLIENT_SECRET e \<and>
      versionIndex (body c1) = ''0'' \<and> stdin (body c1) = []) \<and>
   (c1 \<in> set (upstream_calls (execute e f1 p1 req1)) \<longrightarrow>
    c2 \<in> set (upstream_calls (execute e f2 p2 req2)) \<longrightarrow>
      clientId (body c1) = clientId (body c2) \<and>
      clientSecret (body c1) = clientSecret (body c2) \<and>
      versionIndex (body c1) = versionIndex (body c2) \<and>
      stdin (body c1) = stdin (body c2)) \<and>
   ((\<forall>scr lang. fa \<lparr>url = JD_API_URL, body = executionPayload ea scr lang\<rparr>
               = fb \<lparr>url = JD_API_URL, body = executionPayload eb scr lang\<rparr>) \<longrightarrow>
      response (execute ea fa parse req) = response (execute eb fb parse req))"
proof -
  have fields: "clientId (body c) = JDOODLE_CLIENT_ID e' \<and>
      clientSecret (body c) = JDOODLE_CLIENT_SECRET e' \<and>
      versionIndex (body c) = ''0'' \<and> stdin (body c) = []"
    if "c \<in> set (upstream_calls (execute e' f p r))" for c e' f p r
    using that execute_calls [of e' f p r]
    by (auto simp: executionPayload_def CLIENT_ID_def CLIENT_SECRET_def)
  have resp: "response (execute ea fa parse req) = response (execute eb fb parse req)"
    if "\<forall>scr lang. fa \<lparr>url = JD_API_URL, body = executionPayload ea scr lang\<rparr>
               = fb \<lparr>url = JD_API_URL, body = executionPayload eb scr lang\<rparr>"
    using that
    by (auto simp: execute_def Let_def split: option.splits prod.splits)
  show ?thesis
    using fields [of c1 e f1 p1 req1] fields [of c2 e f2 p2 req2] resp by simp
qed

theorem payload_credentials_fixed_witness:
  "\<lparr>url = JD_API_URL, body = executionPayload sample_env ''print(42)'' ''python3''\<rparr>
     \<in> set (upstream_calls (execute sample_env echoing_provider sample_parse sample_request)) \<and>
   \<lparr>url = JD_API_URL, body = executionPayload sample_env ''int main() { return 0; }'' ''cpp''\<rparr>
     \<in> set (upstream_calls (execute sample_env (\<lambda>c. Rejected ''offline'') sample_parse other_request)) \<and>
   clientSecret (executionPayload sample_env ''print(42)'' ''python3'') = Some ''s3cret'' \<and>
   clientSecret (executionPayload sample_env ''int main() { return 0; }'' ''cpp'') = Some ''s3cret'' \<and>
   clientId (executionPayload sample_env ''print(42)'' ''python3'')
     = clientId (executionPayload sample_env ''int main() { return 0; }'' ''cpp'') \<and>
   response (execute sample_env (\<lambda>c. Resolved answer_42) sample_parse sample_request)
     = response (execute other_env (\<lambda>c. Resolved answer_42) sample_parse sample_request)"
proof -
  let ?c1 = "\<lparr>url = JD_API_URL, body = executionPayload sample_env ''print(42)'' ''python3''\<rparr>"
  let ?c2 = "\<lparr>url = JD_API_URL,
              body = executionPayload sample_env ''int main() { return 0; }'' ''cpp''\<rparr>"
  have m1: "?c1 \<in> set (upstream_calls (execute sample_env echoing_provider sample_parse sample_request))"
    by (simp add: sample_request_calls)
  have m2: "?c2 \<in> set (upstream_calls (execute sample_env (\<lambda>c. Rejected ''offline'') sample_parse other_request))"
    by (simp add: other_request_calls)
  have s: "JDOODLE_CLIENT_SECRET sample_env = Some ''s3cret''"
    by (simp add: sample_env_def)
  from payload_credentials_fixed [of ?c1 sample_env echoing_provider sample_parse sample_request
         ?c2 "\<lambda>c. Rejected ''offline''" sample_parse other_request
         "\<lambda>c. Resolved answer_42" sample_env "\<lambda>c. Resolved answer_42" other_env
         sample_parse sample_request]
       m1 m2 s
  show ?thesis by (simp add: executionPayload_def CLIENT_ID_def CLIENT_SECRET_def)
qed

section \<open>Properties of the offline renderer\<close>

subsection \<open>Lines and their pieces\<close>

lemma join_nonempty: "x \<noteq> [] \<Longrightarrow> join sep (x # xs) \<noteq> []"
  by (cases xs) simp_all

lemma no_print_message_nonempty: "no_print_message \<noteq> []"
  by (simp add: no_print_message_def)

lemma getSimulatedOutput_nonempty: "getSimulatedOutput buf \<noteq> []"
  by (simp add: getSimulatedOutput_def Let_def join_nonempty output_header_def
        no_print_message_nonempty)

lemma split_str_nonempty: "split_str c s \<noteq> []"
  by (induction s) (auto split: list.splits)

lemma hd_split_str_prefix: "prefix (hd (split_str c s)) s"
  by (induction s) (auto split: list.splits)

lemma split_str_sublist: "l \<in> set (split_str c s) \<Longrightarrow> sublist l s"
proof (induction s arbitrary: l)
  case Nil
  then show ?case by simp
next
  case (Cons x xs)
  show ?case
  proof (cases "x = c")
    case True
    with Cons.prems have "l = [] \<or> l \<in> set (split_str c xs)" by simp
    then show ?thesis using Cons.IH by (auto simp: sublist_Cons_right)
  next
    case False
    obtain p ps where sp: "split_str c xs = p # ps"
      using split_str_nonempty [of c xs] by (cases "split_str c xs") auto
    with False Cons.prems have "l = x # p \<or> l \<in> set ps" by simp
    then show ?thesis
    proof
      assume l: "l = x # p"
      have "prefix p xs" using hd_split_str_prefix [of c xs] sp by simp
      then have "prefix l (x # xs)" using l by simp
      then show ?thesis by (rule prefix_imp_sublist)
    next
      assume "l \<in> set ps"
      then have "sublist l xs" using Cons.IH sp by simp
      then show ?thesis by (simp add: sublist_Cons_right)
    qed
  qed
qed

lemma trim_sublist: "sublist (trim s) s"
proof -
  have "suffix (dropWhile isWhiteSpace s) s" by (rule suffix_dropWhile)
  moreover have "prefix (trim s) (dropWhile isWhiteSpace s)"
  proof -
    have "suffix (dropWhile isWhiteSpace (rev (dropWhile isWhiteSpace s))) (rev (dropWhile isWhiteSpace s))"
      by (rule suffix_dropWhile)
    then show ?thesis
      unfolding trim_def by (metis suffix_to_prefix rev_rev_ident)
  qed
  ultimately show ?thesis
    by (meson prefix_imp_sublist suffix_imp_sublist sublist_order.order_trans)
qed

lemma print_statement_has_print:
  "is_print_statement line \<Longrightarrow> sublist ''print('' line"
proof -
  assume "is_print_statement line"
  then have "startsWith (trim line) ''print(''"
    by (simp add: is_print_statement_def)
  then have "prefix ''print('' (trim line)"
    unfolding startsWith_def by (metis take_is_prefix)
  then have "sublist ''print('' (trim line)" by (rule prefix_imp_sublist)
  then show ?thesis using trim_sublist [of line]
    by (meson sublist_order.order_trans)
qed

text \<open>
  C8. For a buffer with no print statement (no line that the renderer's filter takes,
  and so in particular for a buffer in which the text \<open>print(\<close> occurs nowhere) the
  renderer returns the fixed message; that message is not empty, and no result of the
  renderer is the empty string.
\<close>

theorem no_print_message_shown:
  "((\<forall>line \<in> set (split_str CHR ''\<newline>'' buf). \<not> is_print_statement line) \<longrightarrow>
      getSimulatedOutput buf = no_print_message) \<and>
   (\<not> sublist ''print('' buf \<longrightarrow> getSimulatedOutput buf = no_print_message) \<and>
   no_print_message \<noteq> [] \<and>
   getSimulatedOutput buf \<noteq> []"
proof -
  have a: "getSimulatedOutput buf = no_print_message"
    if "\<forall>line \<in> set (split_str CHR ''\<newline>'' buf). \<not> is_print_statement line"
  proof -
    from that have "filter is_print_statement (split_str CHR ''\<newline>'' buf) = []"
      by (simp add: filter_empty_conv)
    then show ?thesis by (simp add: getSimulatedOutput_def)
  qed
  have b: "\<forall>line \<in> set (split_str CHR ''\<newline>'' buf). \<not> is_print_statement line"
    if "\<not> sublist ''print('' buf"
  proof
    fix line assume "line \<in> set (split_str CHR ''\<newline>'' buf)"
    then have "sublist line buf" by (rule split_str_sublist)
    then show "\<not> is_print_statement line"
      using that print_statement_has_print [of line]
      by (meson sublist_order.order_trans)
  qed
  show ?thesis
    using a b no_print_message_nonempty getSimulatedOutput_nonempty by blast
qed

theorem no_print_message_shown_witness:
  "filter is_print_statement (split_str CHR ''\<newline>'' ''x = 1\<newline>y = x + 1'') = [] \<and>
   \<not> sublist ''print('' ''x = 1\<newline>y = x + 1'' \<and>
   getSimulatedOutput ''x = 1\<newline>y = x + 1'' = no_print_message \<and>
   getSimulatedOutput ''x = 1\<newline>y = x + 1'' \<noteq> []"
proof -
  have h0: "filter is_print_statement (split_str CHR ''\<newline>'' ''x = 1\<newline>y = x + 1'') = []"
    by (simp add: is_print_statement_def trim_def startsWith_def isWhiteSpace_def)
  then have h1: "\<forall>line \<in> set (split_str CHR ''\<newline>'' ''x = 1\<newline>y = x + 1''). \<not> is_print_statement line"
    by (simp only: filter_empty_conv)
  have h2: "\<not> sublist ''print('' ''x = 1\<newline>y = x + 1''"
    by code_simp
  from no_print_message_shown [of "''x = 1\<newline>y = x + 1''"] h0 h1 h2
  show ?thesis by blast
qed

lemma match_here_call:
  "arg \<noteq> [] \<Longrightarrow> CHR '')'' \<notin> set arg \<Longrightarrow>
   match_here (''print('' @ arg @ '')'' @ rest) = Some arg"
proof -
  assume ne: "arg \<noteq> []" and np: "CHR '')'' \<notin> set arg"
  have all: "x \<noteq> CHR '')''" if "x \<in> set arg" for x
    using np that by auto
  have tw: "takeWhile (\<lambda>x. x \<noteq> CHR '')'') (arg @ CHR '')'' # rest) = arg"
    using takeWhile_append2 [of arg "\<lambda>x. x \<noteq> CHR '')''" "CHR '')'' # rest", OF all] by simp
  have dw: "dropWhile (\<lambda>x. x \<noteq> CHR '')'') (arg @ CHR '')'' # rest) = CHR '')'' # rest"
    using dropWhile_append2 [of arg "\<lambda>x. x \<noteq> CHR '')''" "CHR '')'' # rest", OF all] by simp
  show ?thesis
    using ne tw dw by (simp add: match_here_def startsWith_def isWhiteSpace_def)
qed

lemma match_print_call:
  "arg \<noteq> [] \<Longrightarrow> CHR '')'' \<notin> set arg \<Longrightarrow>
   match_print (''print('' @ arg @ '')'' @ rest) = Some arg"
  using match_here_call [of arg rest] by simp

lemma trim_id:
  "s \<noteq> [] \<Longrightarrow> \<not> isWhiteSpace (hd s) \<Longrightarrow> \<not> isWhiteSpace (last s) \<Longrightarrow> trim s = s"
proof -
  assume ne: "s \<noteq> []" and h: "\<not> isWhiteSpace (hd s)" and l: "\<not> isWhiteSpace (last s)"
  have "dropWhile isWhiteSpace s = s" using ne h by (cases s) simp_all
  moreover have "dropWhile isWhiteSpace (rev s) = rev s"
    using ne l by (cases "rev s") (simp_all add: last_rev [symmetric] hd_rev)
  ultimately show ?thesis by (simp add: trim_def)
qed

text \<open>
  A print statement that is closed and whose argument has no closing parenthesis, no
  white space at either end and no quote in front is listed as that argument.
\<close>

lemma print_content_plain:
  assumes "arg \<noteq> []" "CHR '')'' \<notin> set arg" "\<not> isWhiteSpace (hd arg)" "\<not> isWhiteSpace (last arg)"
    "hd arg \<noteq> CHR 0x22" "hd arg \<noteq> CHR 0x27"
  shows "print_content (''print('' @ arg @ '')'') = arg"
proof -
  have m: "match_print (''print('' @ arg @ '')'') = Some arg"
    using match_print_call [of arg "[]"] assms by simp
  have t: "trim arg = arg" using assms by (simp add: trim_id)
  have q: "\<not> startsWith arg [CHR 0x22]" "\<not> startsWith arg [CHR 0x27]"
    using assms by (cases arg; simp add: startsWith_def)+
  show ?thesis using q by (simp only: print_content_def m t option.case Let_def if_False simp_thms)
qed

text \<open>
  C7, amended: for the buffer \<open>example_buffer\<close> the renderer returns the header, then
  \<open>hi\<close> for the first line and the text \<open>2+2\<close> of the argument, not the placeholder,
  for the second line: both lines pass the filter, the pattern matches \<open>print(2+2)\<close>
  with \<open>2+2\<close> as its group, and the group is what is listed.
\<close>

theorem example_buffer_output:
  \<open>getSimulatedOutput example_buffer = output_header @ ''\<newline>hi\<newline>2+2'' \<and>
   filter is_print_statement (split_str CHR ''\<newline>'' example_buffer)
     = [''print("hi")'', ''print(2+2)''] \<and>
   print_content ''print("hi")'' = ''hi'' \<and>
   match_print ''print(2+2)'' = Some ''2+2'' \<and>
   print_content ''print(2+2)'' = ''2+2''\<close>
proof -
  have a: \<open>getSimulatedOutput example_buffer = output_header @ ''\<newline>hi\<newline>2+2''\<close>
    by (simp add: example_buffer_def getSimulatedOutput_def is_print_statement_def print_content_def
        match_here_def trim_def startsWith_def endsWith_def substring_def isWhiteSpace_def)
  have b: \<open>filter is_print_statement (split_str CHR ''\<newline>'' example_buffer)
     = [''print("hi")'', ''print(2+2)'']\<close>
    by (simp add: example_buffer_def is_print_statement_def trim_def startsWith_def isWhiteSpace_def)
  have c: \<open>print_content ''print("hi")'' = ''hi''\<close>
    by (simp add: print_content_def match_here_def trim_def startsWith_def endsWith_def
        substring_def isWhiteSpace_def)
  have d: "match_print ''print(2+2)'' = Some ''2+2''"
    by (simp add: match_here_def startsWith_def isWhiteSpace_def)
  have e: "print_content ''print(2+2)'' = ''2+2''"
    by (simp add: print_content_def match_here_def trim_def startsWith_def endsWith_def
        substring_def isWhiteSpace_def)
  show ?thesis using a b c d e by simp
qed

text \<open>
  C7, as stated: the second line of \<open>example_buffer\<close> is listed as the placeholder. It
  is listed as \<open>2+2\<close>.
\<close>

theorem placeholder_counterexample:
  \<open>split_str CHR ''\<newline>'' (getSimulatedOutput example_buffer) = [output_header, ''hi'', ''2+2''] \<and>
   ''2+2'' \<noteq> placeholder\<close>
  by (simp add: example_buffer_def getSimulatedOutput_def is_print_statement_def print_content_def
        match_here_def trim_def startsWith_def endsWith_def substring_def isWhiteSpace_def
        output_header_def placeholder_def)

section \<open>Properties of the page\<close>

subsection \<open>The invariant\<close>

lemma page_inv_mount: "page_inv (mount wd)"
  by (auto simp: page_inv_def mount_def setInterval_def set_timer_def poll_pending_def settle_pending_def Let_def)

lemma writeToTerminal_frame [simp]:
  "isReady (writeToTerminal t c s) = isReady s"
  "isLoading (writeToTerminal t c s) = isLoading s"
  "mounted (writeToTerminal t c s) = mounted s"
  "timers (writeToTerminal t c s) = timers s"
  "next_timer (writeToTerminal t c s) = next_timer s"
  "checkInterval (writeToTerminal t c s) = checkInterval s"
  "editor (writeToTerminal t c s) = editor s"
  "sent (writeToTerminal t c s) = sent s"
  "code (writeToTerminal t c s) = code s"
  by (simp_all add: writeToTerminal_def split: option.splits)

lemma cleanup_editor_frame [simp]:
  "isReady (cleanup_editor s) = isReady s"
  "isLoading (cleanup_editor s) = isLoading s"
  "mounted (cleanup_editor s) = mounted s"
  "timers (cleanup_editor s) = timers s"
  "next_timer (cleanup_editor s) = next_timer s"
  "checkInterval (cleanup_editor s) = checkInterval s"
  "sent (cleanup_editor s) = sent s"
  "code (cleanup_editor s) = code s"
  "terminalInstance (cleanup_editor s) = terminalInstance s"
  by (simp_all add: cleanup_editor_def)

lemma cleanup_editor_editor:
  "editor s \<noteq> NoEditor \<Longrightarrow> editor (cleanup_editor s) \<noteq> NoEditor"
  by (simp add: cleanup_editor_def)

lemma cleanup_terminal_frame [simp]:
  "isReady (cleanup_terminal s) = isReady s"
  "isLoading (cleanup_terminal s) = isLoading s"
  "mounted (cleanup_terminal s) = mounted s"
  "timers (cleanup_terminal s) = timers s"
  "next_timer (cleanup_terminal s) = next_timer s"
  "checkInterval (cleanup_terminal s) = checkInterval s"
  "editor (cleanup_terminal s) = editor s"
  "sent (cleanup_terminal s) = sent s"
  "code (cleanup_terminal s) = code s"
  "terminalInstance (cleanup_terminal s) = terminalInstance s"
  by (simp_all add: cleanup_terminal_def)

lemma init_terminal_effect_frame [simp]:
  "isReady (init_terminal_effect w s) = isReady s"
  "isLoading (init_terminal_effect w s) = isLoading s"
  "mounted (init_terminal_effect w s) = mounted s"
  "timers (init_terminal_effect w s) = timers s"
  "next_timer (init_terminal_effect w s) = next_timer s"
  "checkInterval (init_terminal_effect w s) = checkInterval s"
  "editor (init_terminal_effect w s) = editor s"
  "sent (init_terminal_effect w s) = sent s"
  "code (init_terminal_effect w s) = code s"
  by (simp_all add: init_terminal_effect_def initTerminal_def)

lemma init_editor_frame [simp]:
  "isReady (init_editor w s) = isReady s"
  "isLoading (init_editor w s) = isLoading s"
  "mounted (init_editor w s) = mounted s"
  "checkInterval (init_editor w s) = checkInterval s"
  "sent (init_editor w s) = sent s"
  "code (init_editor w s) = code s"
  "terminalInstance (init_editor w s) = terminalInstance s"
  by (simp_all add: init_editor_def setTimeout_def set_timer_def)

text \<open>The effect of the editor either leaves timers and editor alone or creates both.\<close>

lemma init_editor_cases:
  "(timers (init_editor w s) = timers s \<and> next_timer (init_editor w s) = next_timer s \<and>
    editor (init_editor w s) = editor s)
   \<or> (\<not> isLoading s \<and> \<not> isReady s \<and> editor (init_editor w s) = Live \<and>
      timers (init_editor w s) =
        timers s @ [\<lparr>timer_id = next_timer s, repeats = False, delay = 500, callback = SettleEditor\<rparr>] \<and>
      next_timer (init_editor w s) = Suc (next_timer s))"
  by (simp add: init_editor_def setTimeout_def set_timer_def)

lemma page_inv_cong:
  "timers s' = timers s \<Longrightarrow> next_timer s' = next_timer s \<Longrightarrow> checkInterval s' = checkInterval s \<Longrightarrow>
   mounted s' = mounted s \<Longrightarrow> isReady s' = isReady s \<Longrightarrow> isLoading s' = isLoading s \<Longrightarrow>
   (editor s \<noteq> NoEditor \<longrightarrow> editor s' \<noteq> NoEditor) \<Longrightarrow> sent s' = sent s \<Longrightarrow> page_inv s \<Longrightarrow> page_inv s'"
  by (simp add: page_inv_def poll_pending_def settle_pending_def)

lemma page_inv_writeToTerminal: "page_inv s \<Longrightarrow> page_inv (writeToTerminal t c s)"
  by (rule page_inv_cong [of _ s]) simp_all

lemma page_inv_cleanup_editor: "page_inv s \<Longrightarrow> page_inv (cleanup_editor s)"
  by (rule page_inv_cong [of _ s]) (simp_all add: cleanup_editor_editor)

lemma page_inv_cleanup_terminal: "page_inv s \<Longrightarrow> page_inv (cleanup_terminal s)"
  by (rule page_inv_cong [of _ s]) simp_all

lemma page_inv_init_terminal_effect: "page_inv s \<Longrightarrow> page_inv (init_terminal_effect w s)"
  by (rule page_inv_cong [of _ s]) simp_all

lemma page_inv_init_editor: "page_inv s \<Longrightarrow> page_inv (init_editor w s)"
  using init_editor_cases [of w s]
  by (elim disjE conjE) (auto simp: page_inv_def poll_pending_def settle_pending_def)

lemma page_inv_filter: "page_inv s \<Longrightarrow> page_inv (s\<lparr>timers := filter P (timers s)\<rparr>)"
  by (auto simp: page_inv_def poll_pending_def settle_pending_def)

lemma page_inv_clearInterval: "page_inv s \<Longrightarrow> page_inv (clearInterval h s)"
  by (cases h) (simp_all add: clearInterval_def page_inv_filter)

lemma poll_cleared: "page_inv s \<Longrightarrow> \<not> poll_pending (clearInterval (checkInterval s) s)"
  by (cases "checkInterval s") (auto simp: page_inv_def clearInterval_def poll_pending_def)

lemma page_inv_setIsLoading_false: "page_inv s \<Longrightarrow> page_inv (setIsLoading_false w s)"
proof -
  assume i: "page_inv s"
  have "page_inv (s\<lparr>isLoading := False\<rparr>)"
    using i by (auto simp: page_inv_def poll_pending_def settle_pending_def)
  then show ?thesis
    using i
    by (simp add: setIsLoading_false_def page_inv_init_terminal_effect page_inv_init_editor
          page_inv_cleanup_terminal page_inv_cleanup_editor)
qed

lemma page_inv_setIsReady_true:
  "page_inv s \<Longrightarrow> editor s \<noteq> NoEditor \<Longrightarrow> \<not> isLoading s \<Longrightarrow> page_inv (setIsReady_true w s)"
proof -
  assume i: "page_inv s" and e: "editor s \<noteq> NoEditor" and l: "\<not> isLoading s"
  have "page_inv (s\<lparr>isReady := True\<rparr>)"
    using i e l by (auto simp: page_inv_def poll_pending_def settle_pending_def)
  then show ?thesis
    using i by (simp add: setIsReady_true_def page_inv_init_editor page_inv_cleanup_editor)
qed

lemma page_inv_poll_tick: "page_inv s \<Longrightarrow> page_inv (poll_tick w s)"
  by (simp add: poll_tick_def page_inv_setIsLoading_false page_inv_clearInterval)

lemma page_inv_render_output: "page_inv s \<Longrightarrow> page_inv (render_output c s)"
  by (simp add: render_output_def page_inv_writeToTerminal)

lemma page_inv_set_timer:
  "page_inv s \<Longrightarrow> cb \<noteq> PollLibraries \<Longrightarrow> cb = SettleEditor \<longrightarrow> editor s \<noteq> NoEditor \<and> \<not> isLoading s \<Longrightarrow>
   page_inv (set_timer rep cb ms s)"
  by (auto simp: page_inv_def set_timer_def poll_pending_def settle_pending_def)

lemma page_inv_handleRunCode: "page_inv s \<Longrightarrow> page_inv (handleRunCode s)"
  by (simp add: handleRunCode_def setTimeout_def page_inv_set_timer page_inv_writeToTerminal)

lemma page_inv_setCode: "page_inv s \<Longrightarrow> page_inv (setCode v s)"
  by (auto simp: page_inv_def setCode_def poll_pending_def settle_pending_def)

lemma page_inv_unmount: "page_inv s \<Longrightarrow> page_inv (unmount s)"
proof (cases "mounted s")
  case False
  assume "page_inv s"
  with False show ?thesis by (simp add: unmount_def)
next
  case True
  assume i: "page_inv s"
  let ?s = "cleanup_terminal (cleanup_editor (clearInterval (checkInterval s) s))"
  have a: "page_inv ?s"
    using i by (simp add: page_inv_cleanup_terminal page_inv_cleanup_editor page_inv_clearInterval)
  have b: "\<not> poll_pending ?s"
    using poll_cleared [OF i] by (simp add: poll_pending_def)
  have "page_inv (?s\<lparr>mounted := False\<rparr>)"
    using a b by (auto simp: page_inv_def poll_pending_def settle_pending_def)
  then show ?thesis using True by (simp add: unmount_def)
qed

lemma find_timer_Some:
  "find_timer i s = Some t \<Longrightarrow> t \<in> set (timers s) \<and> timer_id t = i"
  by (auto simp: find_timer_def find_Some_iff)

lemma page_inv_fire: "page_inv s \<Longrightarrow> page_inv (fire i w s)"
proof (cases "find_timer i s")
  case None
  assume "page_inv s"
  with None show ?thesis by (simp add: fire_def)
next
  case (Some t)
  assume i: "page_inv s"
  let ?s = "if repeats t then s else s\<lparr>timers := filter (\<lambda>t. timer_id t \<noteq> i) (timers s)\<rparr>"
  have is': "page_inv ?s" using i by (simp add: page_inv_filter)
  have mem: "t \<in> set (timers s)" using Some by (simp add: find_timer_Some)
  have ed: "editor ?s \<noteq> NoEditor \<and> \<not> isLoading ?s" if "callback t = SettleEditor"
  proof -
    have "settle_pending s" using mem that by (force simp: settle_pending_def)
    then show ?thesis using i by (simp add: page_inv_def)
  qed
  have "page_inv (run_task (callback t) w ?s)"
  proof (cases "callback t")
    case PollLibraries
    then show ?thesis using is' by (simp add: run_task_def page_inv_poll_tick)
  next
    case SettleEditor
    then show ?thesis using is' ed by (simp add: run_task_def page_inv_setIsReady_true)
  next
    case (RenderOutput c)
    then show ?thesis using is' by (simp add: run_task_def page_inv_render_output)
  qed
  then show ?thesis using Some by (simp add: fire_def)
qed

lemma page_inv_step: "page_inv s \<Longrightarrow> page_inv (step ev s)"
  by (cases ev) (simp_all add: page_inv_fire page_inv_handleRunCode page_inv_setCode page_inv_unmount)

lemma page_inv_run: "page_inv s \<Longrightarrow> page_inv (run evs s)"
  unfolding run_def by (induction evs arbitrary: s) (simp_all add: page_inv_step)

lemma page_inv_reachable: "page_inv (run evs (mount wd))"
  by (simp add: page_inv_run page_inv_mount)

text \<open>The definitions to unfold when a run of events is computed.\<close>

lemmas op_defs = set_timer_def setInterval_def setTimeout_def clearInterval_def writeToTerminal_def
  editorRef_def terminalRef_def init_editor_def cleanup_editor_def initTerminal_def
  init_terminal_effect_def cleanup_terminal_def setIsLoading_false_def setIsReady_true_def
  setCode_def poll_tick_def handleRunCode_def render_output_def find_timer_def run_task_def
  fire_def unmount_def

subsection \<open>The poll\<close>

lemma poll_pending_frames [simp]:
  "poll_pending (writeToTerminal t c s) = poll_pending s"
  "poll_pending (cleanup_editor s) = poll_pending s"
  "poll_pending (cleanup_terminal s) = poll_pending s"
  "poll_pending (init_terminal_effect w s) = poll_pending s"
  "poll_pending (s\<lparr>isLoading := l\<rparr>) = poll_pending s"
  "poll_pending (s\<lparr>isReady := r\<rparr>) = poll_pending s"
  "poll_pending (s\<lparr>mounted := m\<rparr>) = poll_pending s"
  by (simp_all add: poll_pending_def)

lemma poll_pending_init_editor [simp]: "poll_pending (init_editor w s) = poll_pending s"
  using init_editor_cases [of w s] by (auto simp: poll_pending_def)

lemma poll_pending_filter:
  "poll_pending (s\<lparr>timers := filter P (timers s)\<rparr>) \<Longrightarrow> poll_pending s"
  by (auto simp: poll_pending_def)

lemma poll_pending_clearInterval: "poll_pending (clearInterval h s) \<Longrightarrow> poll_pending s"
  by (cases h) (auto simp: clearInterval_def poll_pending_def)

lemma poll_pending_setIsLoading_false [simp]:
  "poll_pending (setIsLoading_false w s) = poll_pending s"
  by (simp add: setIsLoading_false_def)

lemma poll_pending_setIsReady_true [simp]:
  "poll_pending (setIsReady_true w s) = poll_pending s"
  by (simp add: setIsReady_true_def)

lemma poll_pending_render_output [simp]: "poll_pending (render_output c s) = poll_pending s"
  by (simp add: render_output_def)

lemma poll_pending_handleRunCode [simp]: "poll_pending (handleRunCode s) = poll_pending s"
  by (simp add: handleRunCode_def setTimeout_def set_timer_def poll_pending_def)

lemma poll_pending_setCode [simp]: "poll_pending (setCode v s) = poll_pending s"
  by (simp add: setCode_def poll_pending_def)

lemma poll_pending_poll_tick: "poll_pending (poll_tick w s) \<Longrightarrow> poll_pending s"
  by (auto simp: poll_tick_def dest: poll_pending_clearInterval split: if_splits)

lemma poll_pending_unmount: "poll_pending (unmount s) \<Longrightarrow> poll_pending s"
proof -
  assume a: "poll_pending (unmount s)"
  show ?thesis
  proof (cases "mounted s")
    case False
    with a show ?thesis by (simp add: unmount_def)
  next
    case True
    with a have "poll_pending (clearInterval (checkInterval s) s)"
      by (simp add: unmount_def)
    then show ?thesis by (rule poll_pending_clearInterval)
  qed
qed

lemma poll_pending_fire: "poll_pending (fire i w s) \<Longrightarrow> poll_pending s"
proof (cases "find_timer i s")
  case None
  assume "poll_pending (fire i w s)"
  with None show ?thesis by (simp add: fire_def)
next
  case (Some t)
  assume a: "poll_pending (fire i w s)"
  let ?s = "if repeats t then s else s\<lparr>timers := filter (\<lambda>t. timer_id t \<noteq> i) (timers s)\<rparr>"
  from a Some have "poll_pending (run_task (callback t) w ?s)" by (simp add: fire_def)
  then have "poll_pending ?s"
    by (cases "callback t") (auto simp: run_task_def dest: poll_pending_poll_tick)
  then show ?thesis by (auto dest: poll_pending_filter split: if_splits)
qed

text \<open>No event puts the poll back into the timer table.\<close>

lemma poll_pending_step: "poll_pending (step ev s) \<Longrightarrow> poll_pending s"
  by (cases ev) (auto dest: poll_pending_fire poll_pending_unmount split: if_splits)

lemma poll_pending_run: "\<not> poll_pending s \<Longrightarrow> \<not> poll_pending (run evs s)"
  unfolding run_def by (induction evs arbitrary: s) (auto dest: poll_pending_step)

text \<open>A tick of the poll that finds the three libraries takes the poll out of the table.\<close>

lemma poll_tick_observed:
  "page_inv s \<Longrightarrow> all_available w \<Longrightarrow> \<not> poll_pending (poll_tick w s)"
  by (simp add: poll_tick_def all_available_def poll_cleared)

lemma fire_poll_observed:
  "page_inv s \<Longrightarrow> find_timer i s = Some t \<Longrightarrow> callback t = PollLibraries \<Longrightarrow> all_available w \<Longrightarrow>
   \<not> poll_pending (fire i w s)"
proof -
  assume i: "page_inv s" and f: "find_timer i s = Some t" and c: "callback t = PollLibraries"
    and w: "all_available w"
  let ?s = "if repeats t then s else s\<lparr>timers := filter (\<lambda>t. timer_id t \<noteq> i) (timers s)\<rparr>"
  have "page_inv ?s" using i by (simp add: page_inv_filter)
  then have "\<not> poll_pending (poll_tick w ?s)" using w by (rule poll_tick_observed)
  then show ?thesis using f c by (simp add: fire_def run_task_def)
qed

lemma unmount_releases_poll: "page_inv s \<Longrightarrow> \<not> poll_pending (unmount s)"
proof (cases "mounted s")
  case False
  assume "page_inv s"
  with False show ?thesis by (simp add: unmount_def page_inv_def)
next
  case True
  assume "page_inv s"
  then have "\<not> poll_pending (clearInterval (checkInterval s) s)" by (rule poll_cleared)
  then show ?thesis using True by (simp add: unmount_def)
qed

lemma polling_page_eq:
  "run [Fire 0 none_loaded] (mount True) =
     \<lparr>code = initial_code, isReady = False, isLoading = True, mounted = True,
      checkInterval = Some 0,
      timers = [\<lparr>timer_id = 0, repeats = True, delay = 200, callback = PollLibraries\<rparr>],
      next_timer = 1, editor = NoEditor,
      terminalInstance = None, terminal_disposed = False, resize_listener = False,
      editor_cleanup = False, terminal_cleanup = False, sent = []\<rparr>"
  by (simp add: run_def mount_def op_defs none_loaded_def)

text \<open>
  C9. In every state the page can reach, a tick of the poll that finds the three
  libraries takes the poll out of the timer table, and whatever happens afterwards it is
  never in the table again, so it never fires again; and unmounting takes the poll out
  of the table for good as well, whether or not the libraries were ever found.
\<close>

theorem poll_timer_released:
  "(find_timer i (run evs (mount wd)) = Some t \<and> callback t = PollLibraries \<and> all_available w \<longrightarrow>
      \<not> poll_pending (run evs' (step (Fire i w) (run evs (mount wd))))) \<and>
   \<not> poll_pending (run evs' (step Unmount (run evs (mount wd))))"
proof -
  have i: "page_inv (run evs (mount wd))" by (rule page_inv_reachable)
  have a: "\<not> poll_pending (run evs' (step (Fire i w) (run evs (mount wd))))"
    if "find_timer i (run evs (mount wd)) = Some t" "callback t = PollLibraries" "all_available w"
    using fire_poll_observed [OF i that] by (simp add: poll_pending_run)
  have b: "\<not> poll_pending (run evs' (step Unmount (run evs (mount wd))))"
    using unmount_releases_poll [OF i] by (simp add: poll_pending_run)
  show ?thesis using a b by blast
qed

theorem poll_timer_released_witness:
  "find_timer 0 (run [Fire 0 none_loaded] (mount True))
     = Some \<lparr>timer_id = 0, repeats = True, delay = 200, callback = PollLibraries\<rparr> \<and>
   all_available all_loaded \<and>
   poll_pending (run [Fire 0 none_loaded] (mount True)) \<and>
   \<not> poll_pending (run [Fire 0 all_loaded, Click]
        (step (Fire 0 all_loaded) (run [Fire 0 none_loaded] (mount True)))) \<and>
   \<not> poll_pending (run [Fire 0 all_loaded]
        (step Unmount (run [Fire 0 none_loaded] (mount True))))"
proof -
  have f: "find_timer 0 (run [Fire 0 none_loaded] (mount True))
     = Some \<lparr>timer_id = 0, repeats = True, delay = 200, callback = PollLibraries\<rparr>"
    by (simp add: polling_page_eq find_timer_def)
  have a: "all_available all_loaded" by (simp add: all_available_def all_loaded_def)
  have p: "poll_pending (run [Fire 0 none_loaded] (mount True))"
    by (simp add: polling_page_eq poll_pending_def)
  from poll_timer_released [of 0 "[Fire 0 none_loaded]" True
         "\<lparr>timer_id = 0, repeats = True, delay = 200, callback = PollLibraries\<rparr>" all_loaded
         "[Fire 0 all_loaded, Click]"]
       poll_timer_released [of 0 "[Fire 0 none_loaded]" True
         "\<lparr>timer_id = 0, repeats = True, delay = 200, callback = PollLibraries\<rparr>" all_loaded
         "[Fire 0 all_loaded]"]
       f a p
  show ?thesis by simp
qed

subsection \<open>The ready flag\<close>

lemma isReady_frames [simp]:
  "isReady (clearInterval h s) = isReady s"
  "isReady (setIsLoading_false w s) = isReady s"
  "isReady (render_output c s) = isReady s"
  "isReady (handleRunCode s) = isReady s"
  "isReady (setCode v s) = isReady s"
  "isReady (unmount s) = isReady s"
  by (simp_all add: clearInterval_def setIsLoading_false_def render_output_def handleRunCode_def
        setTimeout_def set_timer_def setCode_def unmount_def split: option.splits)

lemma isReady_poll_tick [simp]: "isReady (poll_tick w s) = isReady s"
  by (simp add: poll_tick_def)

lemma isReady_setIsReady_true: "isReady s \<Longrightarrow> isReady (setIsReady_true w s)"
  by (simp add: setIsReady_true_def)

lemma isReady_fire: "isReady s \<Longrightarrow> isReady (fire i w s)"
proof (cases "find_timer i s")
  case None
  assume "isReady s"
  with None show ?thesis by (simp add: fire_def)
next
  case (Some t)
  assume r: "isReady s"
  let ?s = "if repeats t then s else s\<lparr>timers := filter (\<lambda>t. timer_id t \<noteq> i) (timers s)\<rparr>"
  have "isReady ?s" using r by simp
  then have "isReady (run_task (callback t) w ?s)"
    by (cases "callback t") (simp_all add: run_task_def isReady_setIsReady_true)
  then show ?thesis using Some by (simp add: fire_def)
qed

lemma isReady_step: "isReady s \<Longrightarrow> isReady (step ev s)"
  by (cases ev) (simp_all add: isReady_fire)

lemma isReady_run: "isReady s \<Longrightarrow> isReady (run evs s)"
  unfolding run_def by (induction evs arbitrary: s) (simp_all add: isReady_step)

text \<open>Only the timeout set at the creation of the editor turns the flag on.\<close>

lemma isReady_granted_by:
  assumes n: "\<not> isReady s" and r: "isReady (step ev s)"
  shows "\<exists>i w t. ev = Fire i w \<and> find_timer i s = Some t \<and> callback t = SettleEditor"
proof (cases ev)
  case (Fire i w)
  show ?thesis
  proof (cases "find_timer i s")
    case None
    with n r Fire show ?thesis by (simp add: fire_def)
  next
    case (Some t)
    let ?s = "if repeats t then s else s\<lparr>timers := filter (\<lambda>t. timer_id t \<noteq> i) (timers s)\<rparr>"
    have n': "\<not> isReady ?s" using n by simp
    from r Fire Some have "isReady (run_task (callback t) w ?s)" by (simp add: fire_def)
    with n' have "callback t = SettleEditor"
      by (cases "callback t") (simp_all add: run_task_def)
    with Fire Some show ?thesis by simp
  qed
next
  case Click
  with n r show ?thesis by (simp split: if_splits)
next
  case (Edit v)
  with n r show ?thesis by (simp split: if_splits)
next
  case Unmount
  with n r show ?thesis by simp
qed

lemma settling_page_eq:
  "run [Fire 0 all_loaded] (mount True) =
     \<lparr>code = initial_code, isReady = False, isLoading = False, mounted = True,
      checkInterval = Some 0,
      timers = [\<lparr>timer_id = 1, repeats = False, delay = 500, callback = SettleEditor\<rparr>],
      next_timer = 2, editor = Live,
      terminalInstance = Some [Write (''NEUDev Compiler Simulation Initializing...'' @ [CHR 0x0D, CHR 0x0A])],
      terminal_disposed = False, resize_listener = True,
      editor_cleanup = True, terminal_cleanup = True, sent = []\<rparr>"
  by (simp add: run_def mount_def op_defs all_loaded_def)

text \<open>
  C10. While \<open>isReady\<close> is false the run button is disabled and \<open>handleRunCode\<close>
  changes nothing; the only event that turns \<open>isReady\<close> on is the firing of the
  timeout set when the editor was created, and that timeout is in the table, or the
  flag on, only when the editor has been created; once on, the flag stays on and the
  button enabled through every sequence of events.
\<close>

theorem run_gated_by_ready:
  "(\<not> isReady s \<longrightarrow> run_disabled s \<and> handleRunCode s = s \<and> step Click s = s) \<and>
   (\<not> isReady s \<and> isReady (step ev s) \<longrightarrow>
      (\<exists>i w t. ev = Fire i w \<and> find_timer i s = Some t \<and> callback t = SettleEditor)) \<and>
   (settle_pending (run evs (mount wd)) \<or> isReady (run evs (mount wd)) \<longrightarrow>
      editor (run evs (mount wd)) \<noteq> NoEditor) \<and>
   (isReady s \<longrightarrow> isReady (run evs' s) \<and> \<not> run_disabled (run evs' s))"
proof -
  have a: "run_disabled s \<and> handleRunCode s = s \<and> step Click s = s" if "\<not> isReady s"
    using that by (simp add: run_disabled_def handleRunCode_def)
  have c: "editor (run evs (mount wd)) \<noteq> NoEditor"
    if "settle_pending (run evs (mount wd)) \<or> isReady (run evs (mount wd))"
    using that page_inv_reachable [of evs wd] by (simp add: page_inv_def)
  have d: "isReady (run evs' s) \<and> \<not> run_disabled (run evs' s)" if "isReady s"
    using that by (simp add: isReady_run run_disabled_def)
  show ?thesis using a isReady_granted_by [of s ev] c d by blast
qed

theorem run_gated_by_ready_witness:
  "\<not> isReady (run [Fire 0 all_loaded] (mount True)) \<and>
   run_disabled (run [Fire 0 all_loaded] (mount True)) \<and>
   step Click (run [Fire 0 all_loaded] (mount True)) = run [Fire 0 all_loaded] (mount True) \<and>
   isReady (step (Fire 1 all_loaded) (run [Fire 0 all_loaded] (mount True))) \<and>
   settle_pending (run [Fire 0 all_loaded] (mount True)) \<and>
   editor (run [Fire 0 all_loaded] (mount True)) \<noteq> NoEditor \<and>
   isReady (run [Click, Edit ''x'', Unmount]
              (step (Fire 1 all_loaded) (run [Fire 0 all_loaded] (mount True))))"
proof -
  let ?s = "run [Fire 0 all_loaded] (mount True)"
  have n: "\<not> isReady ?s" by (simp add: settling_page_eq)
  have r: "isReady (step (Fire 1 all_loaded) ?s)"
    by (simp add: settling_page_eq op_defs)
  have p: "settle_pending ?s" by (simp add: settling_page_eq settle_pending_def)
  from run_gated_by_ready [of ?s "Fire 1 all_loaded" "[Fire 0 all_loaded]" True "[]"]
       run_gated_by_ready [of "step (Fire 1 all_loaded) ?s" Click "[]" True "[Click, Edit ''x'', Unmount]"]
       n r p
  show ?thesis by simp
qed

subsection \<open>The run\<close>

lemma interactive_page_eq:
  "interactive_page =
     \<lparr>code = initial_code, isReady = True, isLoading = False, mounted = True,
      checkInterval = Some 0, timers = [], next_timer = 2, editor = Disposed,
      terminalInstance = Some [Write (''NEUDev Compiler Simulation Initializing...'' @ [CHR 0x0D, CHR 0x0A])],
      terminal_disposed = False, resize_listener = True,
      editor_cleanup = False, terminal_cleanup = True, sent = []\<rparr>"
  by (simp add: interactive_page_def run_def mount_def op_defs all_loaded_def none_loaded_def)

text \<open>
  C1, as stated: a run on the interactive page sends the buffer and the language to the
  relay and renders the relay's response. It does not: on the interactive page a click
  and the timeout that follows send nothing, and the terminal shows what
  \<open>getSimulatedOutput\<close> makes of the buffer, here the argument of its one print
  statement.
\<close>

theorem run_is_local_counterexample:
  "isReady interactive_page \<and> mounted interactive_page \<and>
   sent (run [Click, Fire 2 all_loaded] interactive_page) = [] \<and>
   terminalInstance (run [Click, Fire 2 all_loaded] interactive_page) =
     Some ([Write (''NEUDev Compiler Simulation Initializing...'' @ [CHR 0x0D, CHR 0x0A]), Clear]
           @ ready_banner
           @ [Write (''Compiling and running code...'' @ [CHR 0x0D, CHR 0x0A]),
              Write [CHR 0x0D, CHR 0x0A], Write [CHR 0x0D, CHR 0x0A], Clear]
           @ ready_banner
           @ [Write (output_header @ [CHR 0x0D, CHR 0x0A]),
              Write (''Hello, NEUDev!'' @ [CHR 0x0D, CHR 0x0A])])"
  by (simp add: interactive_page_eq run_def op_defs all_loaded_def initial_code_def
      getSimulatedOutput_def is_print_statement_def print_content_def
        match_here_def trim_def startsWith_def endsWith_def substring_def isWhiteSpace_def
        output_header_def)

text \<open>The timer table through the events.\<close>

lemma timer_inv_mount: "timer_inv (mount wd)"
  by (auto simp: timer_inv_def mount_def setInterval_def set_timer_def Let_def)

lemma timer_inv_cong:
  "timers s' = timers s \<Longrightarrow> next_timer s' = next_timer s \<Longrightarrow> checkInterval s' = checkInterval s \<Longrightarrow>
   timer_inv s \<Longrightarrow> timer_inv s'"
  by (simp add: timer_inv_def)

lemma timer_inv_frames:
  "timer_inv s \<Longrightarrow> timer_inv (writeToTerminal t c s)"
  "timer_inv s \<Longrightarrow> timer_inv (cleanup_editor s)"
  "timer_inv s \<Longrightarrow> timer_inv (cleanup_terminal s)"
  "timer_inv s \<Longrightarrow> timer_inv (init_terminal_effect w s)"
  "timer_inv s \<Longrightarrow> timer_inv (s\<lparr>isLoading := l\<rparr>)"
  "timer_inv s \<Longrightarrow> timer_inv (s\<lparr>isReady := r\<rparr>)"
  "timer_inv s \<Longrightarrow> timer_inv (s\<lparr>mounted := m\<rparr>)"
  "timer_inv s \<Longrightarrow> timer_inv (setCode v s)"
  by (erule timer_inv_cong [rotated -1]; simp add: setCode_def)+

lemma timer_inv_init_editor: "timer_inv s \<Longrightarrow> timer_inv (init_editor w s)"
  using init_editor_cases [of w s]
  by (elim disjE conjE) (auto simp: timer_inv_def)

lemma timer_inv_filter: "timer_inv s \<Longrightarrow> timer_inv (s\<lparr>timers := filter P (timers s)\<rparr>)"
  by (auto simp: timer_inv_def)

lemma timer_inv_clearInterval: "timer_inv s \<Longrightarrow> timer_inv (clearInterval h s)"
  by (cases h) (simp_all add: clearInterval_def timer_inv_filter)

lemma timer_inv_setIsLoading_false: "timer_inv s \<Longrightarrow> timer_inv (setIsLoading_false w s)"
  by (simp add: setIsLoading_false_def timer_inv_frames timer_inv_init_editor)

lemma timer_inv_setIsReady_true: "timer_inv s \<Longrightarrow> timer_inv (setIsReady_true w s)"
  by (simp add: setIsReady_true_def timer_inv_frames timer_inv_init_editor)

lemma timer_inv_poll_tick: "timer_inv s \<Longrightarrow> timer_inv (poll_tick w s)"
  by (simp add: poll_tick_def timer_inv_setIsLoading_false timer_inv_clearInterval)

lemma timer_inv_render_output: "timer_inv s \<Longrightarrow> timer_inv (render_output c s)"
  by (simp add: render_output_def timer_inv_frames)

lemma timer_inv_set_timer:
  "timer_inv s \<Longrightarrow> cb \<noteq> PollLibraries \<Longrightarrow> \<not> rep \<Longrightarrow> timer_inv (set_timer rep cb ms s)"
  by (auto simp: timer_inv_def set_timer_def)

lemma timer_inv_handleRunCode: "timer_inv s \<Longrightarrow> timer_inv (handleRunCode s)"
  by (simp add: handleRunCode_def setTimeout_def timer_inv_set_timer timer_inv_frames)

lemma timer_inv_unmount: "timer_inv s \<Longrightarrow> timer_inv (unmount s)"
  by (simp add: unmount_def timer_inv_frames timer_inv_clearInterval)

lemma timer_inv_fire: "timer_inv s \<Longrightarrow> timer_inv (fire i w s)"
proof (cases "find_timer i s")
  case None
  assume "timer_inv s"
  with None show ?thesis by (simp add: fire_def)
next
  case (Some t)
  assume i: "timer_inv s"
  let ?s = "if repeats t then s else s\<lparr>timers := filter (\<lambda>t. timer_id t \<noteq> i) (timers s)\<rparr>"
  have "timer_inv ?s" using i by (simp add: timer_inv_filter)
  then have "timer_inv (run_task (callback t) w ?s)"
    by (cases "callback t")
       (simp_all add: run_task_def timer_inv_poll_tick timer_inv_setIsReady_true timer_inv_render_output)
  then show ?thesis using Some by (simp add: fire_def)
qed

lemma timer_inv_step: "timer_inv s \<Longrightarrow> timer_inv (step ev s)"
  by (cases ev) (simp_all add: timer_inv_fire timer_inv_handleRunCode timer_inv_frames timer_inv_unmount)

lemma timer_inv_run: "timer_inv s \<Longrightarrow> timer_inv (run evs s)"
  unfolding run_def by (induction evs arbitrary: s) (simp_all add: timer_inv_step)

lemma timer_inv_reachable: "timer_inv (run evs (mount wd))"
  by (simp add: timer_inv_run timer_inv_mount)

lemma find_append_Some: "find P xs = Some x \<Longrightarrow> find P (xs @ ys) = Some x"
  by (induction xs) (auto split: if_splits)

lemma find_filter_other: "(\<And>x. P x \<Longrightarrow> Q x) \<Longrightarrow> find P (filter Q xs) = find P xs"
  by (induction xs) auto

lemma find_filter_self: "find P (filter (\<lambda>x. \<not> P x) xs) = None"
  by (induction xs) auto

lemma find_timer_frames [simp]:
  "find_timer i (writeToTerminal t c s) = find_timer i s"
  "find_timer i (cleanup_editor s) = find_timer i s"
  "find_timer i (cleanup_terminal s) = find_timer i s"
  "find_timer i (init_terminal_effect w s) = find_timer i s"
  "find_timer i (s\<lparr>isLoading := l\<rparr>) = find_timer i s"
  "find_timer i (s\<lparr>isReady := r\<rparr>) = find_timer i s"
  "find_timer i (s\<lparr>mounted := m\<rparr>) = find_timer i s"
  "find_timer i (setCode v s) = find_timer i s"
  "find_timer i (render_output cd s) = find_timer i s"
  by (simp_all add: find_timer_def setCode_def render_output_def)

lemma kept_init_editor:
  "find_timer i s = Some t \<Longrightarrow> find_timer i (init_editor w s) = Some t"
  using init_editor_cases [of w s] by (auto simp: find_timer_def find_append_Some)

lemma kept_clearInterval:
  "h \<noteq> Some i \<Longrightarrow> find_timer i (clearInterval h s) = find_timer i s"
  by (cases h) (auto simp: clearInterval_def find_timer_def intro: find_filter_other)

lemma kept_setIsLoading_false:
  "find_timer i s = Some t \<Longrightarrow> find_timer i (setIsLoading_false w s) = Some t"
  by (simp add: setIsLoading_false_def kept_init_editor)

lemma kept_setIsReady_true:
  "find_timer i s = Some t \<Longrightarrow> find_timer i (setIsReady_true w s) = Some t"
  by (simp add: setIsReady_true_def kept_init_editor)

lemma kept_poll_tick:
  "find_timer i s = Some t \<Longrightarrow> checkInterval s \<noteq> Some i \<Longrightarrow> find_timer i (poll_tick w s) = Some t"
  by (simp add: poll_tick_def kept_setIsLoading_false kept_clearInterval)

lemma kept_handleRunCode:
  "find_timer i s = Some t \<Longrightarrow> find_timer i (handleRunCode s) = Some t"
proof -
  assume f: "find_timer i s = Some t"
  then have "find (\<lambda>t. timer_id t = i)
          (timers (writeToTerminal ''Compiling and running code...\<newline>\<newline>'' True s) @ ys) = Some t" for ys
    by (simp add: find_timer_def find_append_Some)
  then show ?thesis using f
    by (simp add: handleRunCode_def setTimeout_def set_timer_def find_timer_def del: writeToTerminal_frame)
qed

lemma kept_unmount:
  "find_timer i s = Some t \<Longrightarrow> checkInterval s \<noteq> Some i \<Longrightarrow> find_timer i (unmount s) = Some t"
  by (simp add: unmount_def kept_clearInterval)

lemma kept_fire:
  assumes f: "find_timer i s = Some t" and c: "checkInterval s \<noteq> Some i" and j: "j \<noteq> i"
  shows "find_timer i (fire j w s) = Some t"
proof (cases "find_timer j s")
  case None
  with f show ?thesis by (simp add: fire_def)
next
  case (Some u)
  let ?s = "if repeats u then s else s\<lparr>timers := filter (\<lambda>t. timer_id t \<noteq> j) (timers s)\<rparr>"
  have "find (\<lambda>t. timer_id t = i) (filter (\<lambda>t. timer_id t \<noteq> j) (timers s))
          = find (\<lambda>t. timer_id t = i) (timers s)"
    using j by (intro find_filter_other) auto
  then have f': "find_timer i ?s = Some t" using f by (simp add: find_timer_def)
  have c': "checkInterval ?s \<noteq> Some i" using c by simp
  have "find_timer i (run_task (callback u) w ?s) = Some t"
    using f' c' by (cases "callback u") (simp_all add: run_task_def kept_poll_tick kept_setIsReady_true)
  then show ?thesis using Some by (simp add: fire_def)
qed

text \<open>The identifier of a timeout that renders is not the one of the poll.\<close>

lemma render_timer_not_poll:
  "timer_inv s \<Longrightarrow> find_timer i s = Some t \<Longrightarrow> callback t = RenderOutput c \<Longrightarrow>
   checkInterval s \<noteq> Some i \<and> \<not> repeats t"
  using find_timer_Some [of i s t] by (auto simp: timer_inv_def)

lemma kept_step:
  assumes "timer_inv s" "find_timer i s = Some t" "callback t = RenderOutput c" "\<not> fires i ev"
  shows "find_timer i (step ev s) = Some t"
proof -
  have n: "checkInterval s \<noteq> Some i" using render_timer_not_poll assms(1-3) by blast
  show ?thesis
  proof (cases ev)
    case (Fire j w)
    with assms(4) have "j \<noteq> i" by (simp add: fires_def)
    with Fire assms(2) n show ?thesis by (simp add: kept_fire)
  next
    case Click
    with assms(2) show ?thesis by (simp add: kept_handleRunCode)
  next
    case (Edit v)
    with assms(2) show ?thesis by simp
  next
    case Unmount
    with assms(2) n show ?thesis by (simp add: kept_unmount)
  qed
qed

lemma kept_run:
  "timer_inv s \<Longrightarrow> find_timer i s = Some t \<Longrightarrow> callback t = RenderOutput c \<Longrightarrow>
   \<forall>ev \<in> set evs. \<not> fires i ev \<Longrightarrow> find_timer i (run evs s) = Some t"
  unfolding run_def
  by (induction evs arbitrary: s) (simp_all add: kept_step timer_inv_step)

text \<open>What a write and the firing of a rendering timeout do to the terminal handle.\<close>

lemma terminalInstance_writeToTerminal:
  "terminalInstance (writeToTerminal txt clear s)
     = (case terminalInstance s of None \<Rightarrow> None | Some calls \<Rightarrow> Some (calls @ written txt clear))"
  by (simp add: writeToTerminal_def written_def split: option.splits)

lemma fire_render:
  assumes "find_timer i s = Some t" "callback t = RenderOutput c"
  shows "terminalInstance (fire i w s)
     = (case terminalInstance s of
          None \<Rightarrow> None
        | Some calls \<Rightarrow> Some (calls @ written (getSimulatedOutput c) True))"
  using assms
  by (simp add: fire_def run_task_def render_output_def terminalInstance_writeToTerminal)

lemma fire_render_once:
  assumes "timer_inv s" "find_timer i s = Some t" "callback t = RenderOutput c"
  shows "find_timer i (fire i w s) = None"
proof -
  have "\<not> repeats t" using render_timer_not_poll assms by blast
  moreover have "find (\<lambda>t. timer_id t = i) (filter (\<lambda>t. timer_id t \<noteq> i) (timers s)) = None"
    using find_filter_self [of "\<lambda>t. timer_id t = i" "timers s"] by simp
  ultimately show ?thesis using assms(2,3)
    by (simp add: fire_def run_task_def find_timer_def render_output_def)
qed

lemma find_fresh:
  "\<forall>t \<in> set ts. timer_id t < n \<Longrightarrow> timer_id x = n \<Longrightarrow>
   find (\<lambda>t. timer_id t = n) (ts @ [x]) = Some x"
  by (induction ts) auto

lemma clicked_page_eq:
  "clicked_page =
     \<lparr>code = initial_code, isReady = True, isLoading = False, mounted = True,
      checkInterval = Some 0,
      timers = [\<lparr>timer_id = 2, repeats = False, delay = 1000, callback = RenderOutput initial_code\<rparr>],
      next_timer = 3, editor = Disposed,
      terminalInstance =
        Some (Write (''NEUDev Compiler Simulation Initializing...'' @ [CHR 0x0D, CHR 0x0A])
              # written ''Compiling and running code...\<newline>\<newline>'' True),
      terminal_disposed = False, resize_listener = True,
      editor_cleanup = False, terminal_cleanup = True, sent = []\<rparr>"
  by (simp add: clicked_page_def run_def mount_def op_defs all_loaded_def none_loaded_def written_def)

text \<open>
  C1, amended: a run triggered while the page is mounted and interactive sends nothing
  to the relay, and neither does anything else the page does. \<open>handleRunCode\<close> sets
  a timeout of one second that carries the buffer of that moment and, if there is a
  terminal handle, gives it the progress line first (clear, banner, the line). The
  timeout stays in the timer table through every other event; when it fires, in
  whatever state, the terminal handle, if there is one, is given clear, banner and the
  lines of what \<open>getSimulatedOutput\<close> makes of the carried buffer, and the timeout is
  gone from the table. Where there is no terminal handle nothing is written.
\<close>

theorem run_renders_simulated_output:
  "(isReady (run evs (mount wd)) \<and> mounted (run evs (mount wd)) \<longrightarrow>
      find_timer (next_timer (run evs (mount wd))) (step Click (run evs (mount wd)))
        = Some \<lparr>timer_id = next_timer (run evs (mount wd)), repeats = False, delay = 1000,
                 callback = RenderOutput (code (run evs (mount wd)))\<rparr> \<and>
      terminalInstance (step Click (run evs (mount wd)))
        = (case terminalInstance (run evs (mount wd)) of
             None \<Rightarrow> None
           | Some calls \<Rightarrow>
               Some (calls @ written ''Compiling and running code...\<newline>\<newline>'' True))) \<and>
   (find_timer i (run evs (mount wd)) = Some t \<and> callback t = RenderOutput c \<longrightarrow>
      ((\<forall>ev \<in> set evs'. \<not> fires i ev) \<longrightarrow> find_timer i (run evs' (run evs (mount wd))) = Some t) \<and>
      terminalInstance (step (Fire i w) (run evs (mount wd)))
        = (case terminalInstance (run evs (mount wd)) of
             None \<Rightarrow> None
           | Some calls \<Rightarrow> Some (calls @ written (getSimulatedOutput c) True)) \<and>
      find_timer i (step (Fire i w) (run evs (mount wd))) = None) \<and>
   sent (run evs (mount wd)) = [] \<and>
   sent (run evs' (run evs (mount wd))) = []"
proof -
  let ?s = "run evs (mount wd)"
  have i: "page_inv ?s" by (rule page_inv_reachable)
  have ti: "timer_inv ?s" by (rule timer_inv_reachable)
  have ids: "\<forall>t \<in> set (timers ?s). timer_id t < next_timer ?s" using i by (simp add: page_inv_def)
  have s0: "sent ?s = []" using i by (simp add: page_inv_def)
  have s1: "sent (run evs' ?s) = []"
    using page_inv_run [OF i, of evs'] by (simp add: page_inv_def)
  let ?t = "\<lparr>timer_id = next_timer ?s, repeats = False, delay = 1000,
              callback = RenderOutput (code ?s)\<rparr>"
  let ?w1 = "writeToTerminal ''Compiling and running code...\<newline>\<newline>'' True ?s"
  have a: "find_timer (next_timer ?s) (step Click ?s) = Some ?t \<and>
      terminalInstance (step Click ?s)
        = (case terminalInstance ?s of
             None \<Rightarrow> None
           | Some calls \<Rightarrow>
               Some (calls @ written ''Compiling and running code...\<newline>\<newline>'' True))"
    if r: "isReady ?s" and m: "mounted ?s"
  proof -
    have l: "\<not> isLoading ?s" using i r by (simp add: page_inv_def)
    let ?s1 = "?w1\<lparr>timers := timers ?s @ [?t], next_timer := Suc (next_timer ?s)\<rparr>"
    have c: "step Click ?s = ?s1"
      using r m l by (simp add: handleRunCode_def setTimeout_def set_timer_def)
    have f: "find_timer (next_timer ?s) ?s1 = Some ?t"
      unfolding find_timer_def using find_fresh [OF ids, of ?t] by simp
    have g: "terminalInstance ?s1
        = (case terminalInstance ?s of
             None \<Rightarrow> None
           | Some calls \<Rightarrow>
               Some (calls @ written ''Compiling and running code...\<newline>\<newline>'' True))"
      by (simp add: terminalInstance_writeToTerminal)
    show ?thesis unfolding c using f g by simp
  qed
  have b: "((\<forall>ev \<in> set evs'. \<not> fires i ev) \<longrightarrow> find_timer i (run evs' ?s) = Some t) \<and>
      terminalInstance (step (Fire i w) ?s)
        = (case terminalInstance ?s of
             None \<Rightarrow> None
           | Some calls \<Rightarrow> Some (calls @ written (getSimulatedOutput c) True)) \<and>
      find_timer i (step (Fire i w) ?s) = None"
    if f: "find_timer i ?s = Some t" and cb: "callback t = RenderOutput c"
    using kept_run [OF ti f cb, of evs'] fire_render [OF f cb, of w] fire_render_once [OF ti f cb, of w]
    by simp
  show ?thesis using a b s0 s1 by blast
qed

theorem run_renders_simulated_output_witness:
  "isReady interactive_page \<and> mounted interactive_page \<and>
   find_timer 2 (step Click interactive_page)
     = Some \<lparr>timer_id = 2, repeats = False, delay = 1000, callback = RenderOutput initial_code\<rparr> \<and>
   terminalInstance (step Click interactive_page)
     = Some ([Write (''NEUDev Compiler Simulation Initializing...'' @ [CHR 0x0D, CHR 0x0A])]
             @ written ''Compiling and running code...\<newline>\<newline>'' True) \<and>
   find_timer 2 clicked_page
     = Some \<lparr>timer_id = 2, repeats = False, delay = 1000, callback = RenderOutput initial_code\<rparr> \<and>
   \<not> fires 2 Click \<and> \<not> fires 2 (Fire 3 all_loaded) \<and> \<not> fires 2 (Edit ''x = 1'') \<and>
   find_timer 2 (run [Click, Fire 3 all_loaded, Edit ''x = 1''] clicked_page)
     = Some \<lparr>timer_id = 2, repeats = False, delay = 1000, callback = RenderOutput initial_code\<rparr> \<and>
   terminalInstance (step (Fire 2 all_loaded) clicked_page)
     = Some ([Write (''NEUDev Compiler Simulation Initializing...'' @ [CHR 0x0D, CHR 0x0A])]
             @ written ''Compiling and running code...\<newline>\<newline>'' True
             @ written (getSimulatedOutput initial_code) True) \<and>
   find_timer 2 (step (Fire 2 all_loaded) clicked_page) = None \<and>
   sent interactive_page = [] \<and>
   sent (run [Click, Fire 3 all_loaded, Edit ''x = 1''] clicked_page) = []"
proof -
  let ?t = "\<lparr>timer_id = 2, repeats = False, delay = 1000, callback = RenderOutput initial_code\<rparr>"
  have r: "isReady interactive_page \<and> mounted interactive_page"
    by (simp add: interactive_page_eq)
  have f: "find_timer 2 clicked_page = Some ?t"
    by (simp add: clicked_page_eq find_timer_def)
  have n: "\<forall>ev \<in> set [Click, Fire 3 all_loaded, Edit ''x = 1'']. \<not> fires 2 ev"
    by (simp add: fires_def)
  have n': "\<not> fires 2 Click \<and> \<not> fires 2 (Fire 3 all_loaded) \<and> \<not> fires 2 (Edit ''x = 1'')"
    by (simp add: fires_def)
  have t0: "terminalInstance interactive_page
      = Some [Write (''NEUDev Compiler Simulation Initializing...'' @ [CHR 0x0D, CHR 0x0A])]"
    by (simp add: interactive_page_eq)
  have t1: "terminalInstance clicked_page
      = Some ([Write (''NEUDev Compiler Simulation Initializing...'' @ [CHR 0x0D, CHR 0x0A])]
              @ written ''Compiling and running code...\<newline>\<newline>'' True)"
    by (simp add: clicked_page_eq)
  have nt: "next_timer interactive_page = 2" by (simp add: interactive_page_eq)
  have c0: "code interactive_page = initial_code" by (simp add: interactive_page_eq)
  note A = run_renders_simulated_output
          [of "[Fire 0 none_loaded, Fire 0 all_loaded, Fire 1 all_loaded]" True 2 ?t initial_code "[]" all_loaded,
           folded interactive_page_def]
  note B = run_renders_simulated_output
          [of "[Fire 0 none_loaded, Fire 0 all_loaded, Fire 1 all_loaded, Click]" True 2 ?t initial_code
              "[Click, Fire 3 all_loaded, Edit ''x = 1'']" all_loaded,
           folded clicked_page_def]
  from A r have A': "find_timer (next_timer interactive_page) (step Click interactive_page)
        = Some \<lparr>timer_id = next_timer interactive_page, repeats = False, delay = 1000,
                 callback = RenderOutput (code interactive_page)\<rparr> \<and>
      terminalInstance (step Click interactive_page)
        = (case terminalInstance interactive_page of
             None \<Rightarrow> None
           | Some calls \<Rightarrow>
               Some (calls @ written ''Compiling and running code...\<newline>\<newline>'' True)) \<and>
      sent interactive_page = []"
    by blast
  from B f n have B': "find_timer 2 (run [Click, Fire 3 all_loaded, Edit ''x = 1''] clicked_page) = Some ?t \<and>
      terminalInstance (step (Fire 2 all_loaded) clicked_page)
        = (case terminalInstance clicked_page of
             None \<Rightarrow> None
           | Some calls \<Rightarrow> Some (calls @ written (getSimulatedOutput initial_code) True)) \<and>
      find_timer 2 (step (Fire 2 all_loaded) clicked_page) = None \<and>
      sent (run [Click, Fire 3 all_loaded, Edit ''x = 1''] clicked_page) = []"
    by simp
  show ?thesis
    using A' B' r f n'
    by (simp only: nt c0 t0 t1 option.case append_assoc simp_thms)
qed

text \<open>
  Where \<open>new Terminal\<close> threw, the page becomes interactive all the same, and a run
  writes nothing anywhere.
\<close>

lemma no_handle_nothing_rendered:
  "isReady (run [Fire 0 terminal_fails, Fire 1 terminal_fails] (mount True)) \<and>
   mounted (run [Fire 0 terminal_fails, Fire 1 terminal_fails] (mount True)) \<and>
   terminalInstance (run [Fire 0 terminal_fails, Fire 1 terminal_fails] (mount True)) = None \<and>
   terminalInstance
     (run [Fire 0 terminal_fails, Fire 1 terminal_fails, Click, Fire 2 terminal_fails] (mount True))
     = None"
  by (simp add: run_def mount_def op_defs terminal_fails_def)

end
